theory Spec2Isabelle
  imports Main "HOL-Library.Sublist"
begin

section \<open>Strings and the standard-library functions the file calls\<close>

text \<open>
  Go strings are byte sequences; they are modelled as \<open>string\<close> (a list of 8-bit
  characters). File names are taken to be ASCII: \<open>strings.ToLower\<close> is modelled on
  the letters \<open>A\<close> to \<open>Z\<close> and leaves every other byte as it is. Go's \<open>int\<close> is the
  64-bit one; the file only compares versions and never computes with them, so they are
  modelled as \<open>int\<close>, with the range check of \<open>strconv.Atoi\<close> written out.
\<close>

definition is_digit :: "char \<Rightarrow> bool" where
  "is_digit c = (48 \<le> (of_char c :: nat) \<and> (of_char c :: nat) \<le> 57)"

definition is_upper :: "char \<Rightarrow> bool" where
  "is_upper c = (65 \<le> (of_char c :: nat) \<and> (of_char c :: nat) \<le> 90)"

definition is_lower :: "char \<Rightarrow> bool" where
  "is_lower c = (97 \<le> (of_char c :: nat) \<and> (of_char c :: nat) \<le> 122)"

definition ToLower_char :: "char \<Rightarrow> char" where
  "ToLower_char c = (if is_upper c then char_of ((of_char c :: nat) + 32) else c)"

definition ToLower :: "string \<Rightarrow> string" where
  "ToLower s = map ToLower_char s"

definition HasSuffix :: "string \<Rightarrow> string \<Rightarrow> bool" where
  "HasSuffix s suf = (length suf \<le> length s \<and> drop (length s - length suf) s = suf)"

definition digit_val :: "char \<Rightarrow> int" where
  "digit_val c = int (of_char c) - 48"

definition digits_val :: "string \<Rightarrow> int" where
  "digits_val ds = foldl (\<lambda>a c. 10 * a + digit_val c) 0 ds"

text \<open>
  \<open>strconv.Atoi\<close>: an optional sign, then one or more decimal digits and nothing else;
  a value outside the 64-bit range is an error. \<open>None\<close> is the error return.
\<close>

definition Atoi :: "string \<Rightarrow> int option" where
  "Atoi s =
     (case s of
        [] \<Rightarrow> None
      | c # r \<Rightarrow>
          (let neg = (c = CHR ''-'');
               ds = (if c = CHR ''+'' \<or> c = CHR ''-'' then r else s)
           in if ds = [] \<or> \<not> list_all is_digit ds then None
              else if neg then
                (if digits_val ds \<le> 2 ^ 63 then Some (- digits_val ds) else None)
              else
                (if digits_val ds < 2 ^ 63 then Some (digits_val ds) else None)))"

fun digits_of :: "nat \<Rightarrow> string" where
  "digits_of n =
     (if n < 10 then [char_of (48 + n)]
      else digits_of (n div 10) @ [char_of (48 + n mod 10)])"

declare digits_of.simps [simp del]

text \<open>\<open>strconv.Itoa\<close>: the decimal numeral of an integer.\<close>

definition Itoa :: "int \<Rightarrow> string" where
  "Itoa i = (if i < 0 then CHR ''-'' # digits_of (nat (- i)) else digits_of (nat i))"

section \<open>Fallback name parser\<close>

text \<open>
  \<open>versionRegex\<close> is \<^verbatim>\<open>\[[vV]?(?P<version>[0-9]{1,10})]\<close>. A match that starts at the
  head of the input reads an opening bracket, an optional \<open>v\<close> or \<open>V\<close>, between one and
  ten digits and a closing bracket; the closing bracket is no digit, so the digits of a
  match are the whole run of digits. The result is the capture group.
\<close>

definition match_version_here :: "string \<Rightarrow> string option" where
  "match_version_here s =
     (case s of
        [] \<Rightarrow> None
      | c # r \<Rightarrow>
          if c \<noteq> CHR ''['' then None
          else
            (let r' = (case r of
                         [] \<Rightarrow> r
                       | d # t \<Rightarrow> if d = CHR ''v'' \<or> d = CHR ''V'' then t else r);
                 ds = takeWhile is_digit r';
                 rest = dropWhile is_digit r'
             in if 1 \<le> length ds \<and> length ds \<le> 10 \<and> rest \<noteq> [] \<and> hd rest = CHR '']''
                then Some ds else None))"

text \<open>
  \<open>titleIdRegex\<close> is \<^verbatim>\<open>\[(?P<titleId>[A-Z,a-z0-9]{16})]\<close>: the character class holds
  the letters, the digits and the comma.
\<close>

definition is_titleId_char :: "char \<Rightarrow> bool" where
  "is_titleId_char c = (is_upper c \<or> c = CHR '','' \<or> is_lower c \<or> is_digit c)"

definition match_titleId_here :: "string \<Rightarrow> string option" where
  "match_titleId_here s =
     (case s of
        [] \<Rightarrow> None
      | c # r \<Rightarrow>
          if c = CHR ''['' \<and> 17 \<le> length r \<and> list_all is_titleId_char (take 16 r)
             \<and> r ! 16 = CHR '']''
          then Some (take 16 r) else None)"

text \<open>
  \<open>FindStringSubmatch\<close> returns the leftmost match: the matcher is tried at every
  position from the left. \<open>None\<close> is the nil slice of no match; \<open>Some g\<close> is the
  two-element slice whose second element is the capture group \<open>g\<close>.
\<close>

fun find_leftmost :: "(string \<Rightarrow> string option) \<Rightarrow> string \<Rightarrow> string option" where
  "find_leftmost m [] = m []"
| "find_leftmost m (c # r) =
     (case m (c # r) of Some g \<Rightarrow> Some g | None \<Rightarrow> find_leftmost m r)"

definition versionRegex_FindStringSubmatch :: "string \<Rightarrow> string option" where
  "versionRegex_FindStringSubmatch = find_leftmost match_version_here"

definition titleIdRegex_FindStringSubmatch :: "string \<Rightarrow> string option" where
  "titleIdRegex_FindStringSubmatch = find_leftmost match_titleId_here"

text \<open>
  The two parsers return a pointer and an error, exactly one of them nil: \<open>Inl\<close> is the
  error with its message, \<open>Inr\<close> the value pointed to.
\<close>

definition parseVersionFromFileName :: "string \<Rightarrow> string + int" where
  "parseVersionFromFileName fileName =
     (case versionRegex_FindStringSubmatch fileName of
        None \<Rightarrow> Inl ''failed to parse name - no version id found''
      | Some g \<Rightarrow>
          (case Atoi g of
             None \<Rightarrow> Inl ''failed to parse name - no version id found''
           | Some ver \<Rightarrow> Inr ver))"

definition parseTitleIdFromFileName :: "string \<Rightarrow> string + string" where
  "parseTitleIdFromFileName fileName =
     (case titleIdRegex_FindStringSubmatch fileName of
        None \<Rightarrow> Inl ''failed to parse name - no title id found''
      | Some g \<Rightarrow> Inr (ToLower g))"

section \<open>Data model\<close>

text \<open>
  \<open>os.FileInfo\<close> is an interface; the file calls its methods \<open>Name\<close>, \<open>Size\<close> and
  \<open>IsDir\<close>. A nil interface value is \<open>None\<close>: the zero \<open>ExtendedFileInfo\<close> holds one,
  and calling a method on it panics. Map keys of type \<open>ExtendedFileInfo\<close> are compared
  by their fields.
\<close>

record FileInfo =
  Name :: string
  Size :: int
  IsDir :: bool

record ExtendedFileInfo =
  Info :: "FileInfo option"
  BaseFolder :: string

text \<open>
  Modelled from the spec: the declaration of \<open>switchfs.ContentMetaAttributes\<close> is not part
  of the file. It is the attributes of one content entry: the title identifier, the
  numeric version and the content-type tag, the three fields the file reads and writes.
\<close>

record ContentMetaAttributes =
  TitleId :: string
  Version :: int
  Type :: string

record SwitchFileInfo =
  ExtendedInfo :: ExtendedFileInfo
  Metadata :: "ContentMetaAttributes option"

record SwitchGameFiles =
  File :: SwitchFileInfo
  BaseExist :: bool
  Updates :: "int \<rightharpoonup> SwitchFileInfo"
  Dlc :: "string \<rightharpoonup> SwitchFileInfo"
  MultiContent :: bool
  LatestUpdate :: int
  IsSplit :: bool

record SkippedFile =
  ReasonCode :: int
  ReasonText :: string
  AdditionalInfo :: string

definition REASON_UNSUPPORTED_TYPE :: int where "REASON_UNSUPPORTED_TYPE = 0"
definition REASON_DUPLICATE :: int where "REASON_DUPLICATE = 1"
definition REASON_OLD_UPDATE :: int where "REASON_OLD_UPDATE = 2"
definition REASON_UNRECOGNISED :: int where "REASON_UNRECOGNISED = 3"
definition REASON_MALFORMED_FILE :: int where "REASON_MALFORMED_FILE = 4"

text \<open>The zero values Go gives a missing map entry and an unset struct field.\<close>

definition zero_ExtendedFileInfo :: ExtendedFileInfo where
  "zero_ExtendedFileInfo = \<lparr>Info = None, BaseFolder = []\<rparr>"

definition zero_SwitchFileInfo :: SwitchFileInfo where
  "zero_SwitchFileInfo = \<lparr>ExtendedInfo = zero_ExtendedFileInfo, Metadata = None\<rparr>"

text \<open>
  A \<open>map[string]*ContentMetaAttributes\<close> is a list of its entries in the order in
  which \<open>range\<close> visits them: Go leaves that order open, so it is part of the value a
  parser or the cache hands over.
\<close>

type_synonym ContentMap = "(string \<times> ContentMetaAttributes) list"
type_synonym Titles = "string \<rightharpoonup> SwitchGameFiles"
type_synonym Skipped = "ExtendedFileInfo \<rightharpoonup> SkippedFile"

text \<open>
  The store holds one bucket, \<open>deep-scan\<close>: \<open>None\<close> when the bucket does not exist,
  otherwise its keys and values. Opening a transaction, \<open>Put\<close>, \<open>DeleteBucket\<close> and
  the commit are taken to succeed.
\<close>

type_synonym Bucket = "string \<rightharpoonup> string"
type_synonym DB = "Bucket option"

text \<open>
  What the file takes from outside: whether \<open>settings.SwitchKeys\<close> yields a non-empty
  \<open>header_key\<close>, the three structural parsers, \<open>filepath.Join\<close>, the gob codec and the
  version constant. A parser and the decoder return a value and an error, each of which
  may be nil; an error is its message.
\<close>

record Env =
  header_key :: bool
  ReadNspMetadata :: "string \<Rightarrow> ContentMap option \<times> string option"
  ReadXciMetadata :: "string \<Rightarrow> ContentMap option \<times> string option"
  ReadSplitFileMetadata :: "string \<Rightarrow> ContentMap option \<times> string option"
  filepath_Join :: "string \<Rightarrow> string \<Rightarrow> string"
  gob_Decode :: "string \<Rightarrow> ContentMap option \<times> string option"
  gob_Encode :: "ContentMap \<Rightarrow> string option"
  SLM_VERSION :: string

datatype go_panic = NilPointerDereference | SliceBoundsOutOfRange

datatype failure = Panic go_panic | Error string

record ScanState =
  titles :: Titles
  skipped :: Skipped
  db :: DB

section \<open>Opening the cache\<close>

text \<open>
  \<open>NewLocalSwitchDBManager\<close>, from the result of \<open>bolt.Open\<close> (\<open>Inl\<close>: the open failed,
  and \<open>log.Fatal\<close> ends the process). When the bucket holds an \<open>app_version\<close> entry the
  entry is decoded into a local variable that nothing reads afterwards.
\<close>

definition NewLocalSwitchDBManager :: "string + DB \<Rightarrow> string + DB" where
  "NewLocalSwitchDBManager opened =
     (case opened of
        Inl err \<Rightarrow> Inl err
      | Inr d \<Rightarrow>
          (case d of
             None \<Rightarrow> Inr None
           | Some b \<Rightarrow>
               (case b ''app_version'' of
                  None \<Rightarrow> Inr None
                | Some v \<Rightarrow> Inr (Some b))))"

section \<open>Metadata resolver\<close>

text \<open>The cache lookup of \<open>getGameMetadata\<close>: a decoding error is logged and ignored.\<close>

definition cacheGet :: "Env \<Rightarrow> DB \<Rightarrow> string \<Rightarrow> ContentMap option" where
  "cacheGet env d fileKey =
     (case d of
        None \<Rightarrow> None
      | Some b \<Rightarrow>
          (case b fileKey of
             None \<Rightarrow> None
           | Some v \<Rightarrow> fst (gob_Decode env v)))"

definition malformed :: "string \<Rightarrow> string \<Rightarrow> SkippedFile" where
  "malformed what err =
     \<lparr>ReasonCode = REASON_MALFORMED_FILE,
      ReasonText = what @ err @ '']'',
      AdditionalInfo = []\<rparr>"

text \<open>
  The structural parsers, chosen by the lower-cased name's suffix. A parser's error
  writes the skip entry; the value it returned is kept either way.
\<close>

definition readStructural ::
  "Env \<Rightarrow> ExtendedFileInfo \<Rightarrow> string \<Rightarrow> string \<Rightarrow> Skipped \<Rightarrow> ContentMap option \<times> Skipped" where
  "readStructural env file fileName filePath skp =
     (if HasSuffix fileName ''nsp'' \<or> HasSuffix fileName ''nsz'' then
        (case ReadNspMetadata env filePath of
           (metadata, None) \<Rightarrow> (metadata, skp)
         | (metadata, Some err) \<Rightarrow>
             (metadata, skp(file \<mapsto> malformed ''failed to read NSP [reason: '' err)))
      else if HasSuffix fileName ''xci'' \<or> HasSuffix fileName ''xcz'' then
        (case ReadXciMetadata env filePath of
           (metadata, None) \<Rightarrow> (metadata, skp)
         | (metadata, Some err) \<Rightarrow>
             (metadata, skp(file \<mapsto> malformed ''failed to read NSP [reason: '' err)))
      else if HasSuffix fileName ''00'' then
        (case ReadSplitFileMetadata env filePath of
           (metadata, None) \<Rightarrow> (metadata, skp)
         | (metadata, Some err) \<Rightarrow>
             (metadata, skp(file \<mapsto> malformed ''failed to read split files [reason: '' err)))
      else (None, skp))"

text \<open>
  The cache write: a missing bucket is created and stamped with the version; when the
  encoder fails the transaction is rolled back, the new bucket with it.
\<close>

definition cachePut :: "Env \<Rightarrow> DB \<Rightarrow> string \<Rightarrow> ContentMap \<Rightarrow> DB" where
  "cachePut env d fileKey metadata =
     (let b = (case d of
                 None \<Rightarrow> [''app_version'' \<mapsto> SLM_VERSION env]
               | Some b \<Rightarrow> b)
      in case gob_Encode env metadata of
           None \<Rightarrow> d
         | Some bytes \<Rightarrow> Some (b(fileKey \<mapsto> bytes)))"

text \<open>The fallback: title id and version from the file name.\<close>

definition metadataFromFileName :: "string \<Rightarrow> failure + ContentMap" where
  "metadataFromFileName name =
     (case (parseTitleIdFromFileName name, parseVersionFromFileName name) of
        (Inr titleId, Inr version) \<Rightarrow>
          Inr [(titleId, \<lparr>TitleId = titleId, Version = version, Type = []\<rparr>)]
      | _ \<Rightarrow> Inl (Error ''unable to determine titileId / version''))"

definition getGameMetadata ::
  "Env \<Rightarrow> ExtendedFileInfo \<Rightarrow> string \<Rightarrow> Skipped \<Rightarrow> DB
     \<Rightarrow> (failure + ContentMap) \<times> Skipped \<times> DB" where
  "getGameMetadata env file filePath skp d =
     (case Info file of
        None \<Rightarrow> (Inl (Panic NilPointerDereference), skp, d)
      | Some info \<Rightarrow>
          (let fileKey = filePath @ ''|'' @ Name info @ ''|'' @ Itoa (Size info) in
           if header_key env then
             (case cacheGet env d fileKey of
                Some metadata \<Rightarrow> (Inr metadata, skp, d)
              | None \<Rightarrow>
                  (case readStructural env file (ToLower (Name info)) filePath skp of
                     (Some metadata, skp') \<Rightarrow>
                       (Inr metadata, skp', cachePut env d fileKey metadata)
                   | (None, skp') \<Rightarrow> (metadataFromFileName (Name info), skp', d)))
           else (metadataFromFileName (Name info), skp, d)))"

section \<open>Title classifier\<close>

definition skip :: "int \<Rightarrow> string \<Rightarrow> SkippedFile" where
  "skip code txt = \<lparr>ReasonCode = code, ReasonText = txt, AdditionalInfo = []\<rparr>"

definition new_SwitchGameFiles :: "bool \<Rightarrow> bool \<Rightarrow> SwitchGameFiles" where
  "new_SwitchGameFiles multiContent isSplit =
     \<lparr>File = zero_SwitchFileInfo, BaseExist = False, Updates = Map.empty, Dlc = Map.empty,
      MultiContent = multiContent, LatestUpdate = 0, IsSplit = isSplit\<rparr>"

text \<open>
  The body of the loop over the content entries of one file. \<open>switchTitle\<close> is a
  pointer stored in \<open>titles\<close> before anything else happens, so every later write to it
  is a write to the catalog: the record is put back at each exit. A missing map entry
  reads as the zero value.
\<close>

definition processContentEntry ::
  "ExtendedFileInfo \<Rightarrow> bool \<Rightarrow> bool \<Rightarrow> ContentMetaAttributes \<Rightarrow> Titles \<times> Skipped
     \<Rightarrow> go_panic + Titles \<times> Skipped" where
  "processContentEntry file isSplit multiContent metadata ts =
     (let ttl = fst ts; skp = snd ts in
      if length (TitleId metadata) < 4 then Inl SliceBoundsOutOfRange
      else
        (let idPrefix = take (length (TitleId metadata) - 4) (TitleId metadata);
             switchTitle = (case ttl idPrefix of
                              Some t \<Rightarrow> t
                            | None \<Rightarrow> new_SwitchGameFiles multiContent isSplit)
         in
         if HasSuffix (TitleId metadata) ''800'' then
           (case Updates switchTitle (Version metadata) of
              Some update \<Rightarrow>
                (case Info (ExtendedInfo update) of
                   None \<Rightarrow> Inl NilPointerDereference
                 | Some ui \<Rightarrow>
                     Inr (ttl(idPrefix \<mapsto> switchTitle),
                          skp(file \<mapsto> skip REASON_DUPLICATE
                                (''duplicate update file ('' @ Name ui @ '')''))))
            | None \<Rightarrow>
                (let installed = switchTitle
                       \<lparr>Updates := (Updates switchTitle)(Version metadata \<mapsto>
                          \<lparr>ExtendedInfo = file,
                           Metadata = Some (metadata\<lparr>Type := ''Update''\<rparr>)\<rparr>)\<rparr>
                 in
                 if Version metadata > LatestUpdate switchTitle then
                   Inr (ttl(idPrefix \<mapsto> installed\<lparr>LatestUpdate := Version metadata\<rparr>),
                        (if LatestUpdate switchTitle \<noteq> 0 then
                           skp(ExtendedInfo
                                 (case Updates installed (LatestUpdate switchTitle) of
                                    Some previous \<Rightarrow> previous
                                  | None \<Rightarrow> zero_SwitchFileInfo) \<mapsto>
                               skip REASON_OLD_UPDATE
                                 ''old update file, newer update exist locally'')
                         else skp))
                 else
                   Inr (ttl(idPrefix \<mapsto> installed),
                        skp(file \<mapsto> skip REASON_OLD_UPDATE
                              ''old update file, newer update exist locally''))))
         else if HasSuffix (TitleId metadata) ''000'' then
           (if BaseExist switchTitle then
              (case Info (ExtendedInfo (File switchTitle)) of
                 None \<Rightarrow> Inl NilPointerDereference
               | Some bi \<Rightarrow>
                   Inr (ttl(idPrefix \<mapsto> switchTitle),
                        skp(file \<mapsto> skip REASON_DUPLICATE
                              (''duplicate base file ('' @ Name bi @ '')''))))
            else
              Inr (ttl(idPrefix \<mapsto> switchTitle
                     \<lparr>File := \<lparr>ExtendedInfo = file,
                               Metadata = Some (metadata\<lparr>Type := ''Base''\<rparr>)\<rparr>,
                      BaseExist := True\<rparr>),
                   skp))
         else
           (let install = Inr (ttl(idPrefix \<mapsto> switchTitle
                    \<lparr>Dlc := (Dlc switchTitle)(TitleId metadata \<mapsto>
                       \<lparr>ExtendedInfo = file,
                        Metadata = Some (metadata\<lparr>Type := ''DLC''\<rparr>)\<rparr>)\<rparr>),
                  skp)
            in
            case Dlc switchTitle (TitleId metadata) of
              None \<Rightarrow> install
            | Some dlc \<Rightarrow>
                (case Metadata dlc of
                   None \<Rightarrow> Inl NilPointerDereference
                 | Some dm \<Rightarrow>
                     if Version metadata < Version dm then
                       (case Info (ExtendedInfo dlc) of
                          None \<Rightarrow> Inl NilPointerDereference
                        | Some di \<Rightarrow>
                            Inr (ttl(idPrefix \<mapsto> switchTitle),
                                 skp(file \<mapsto> skip REASON_OLD_UPDATE
                                       ''old DLC file, newer version exist locally'')))
                     else if Version metadata = Version dm then
                       (case Info (ExtendedInfo dlc) of
                          None \<Rightarrow> Inl NilPointerDereference
                        | Some di \<Rightarrow>
                            Inr (ttl(idPrefix \<mapsto> switchTitle),
                                 skp(file \<mapsto> skip REASON_DUPLICATE
                                       (''duplicate DLC file ('' @ Name di @ '')''))))
                     else install))))"

text \<open>The loop over the content entries, stopping at a panic.\<close>

fun processContents ::
  "ExtendedFileInfo \<Rightarrow> bool \<Rightarrow> bool \<Rightarrow> ContentMap \<Rightarrow> Titles \<times> Skipped
     \<Rightarrow> go_panic + Titles \<times> Skipped" where
  "processContents file isSplit multiContent [] ts = Inr ts"
| "processContents file isSplit multiContent (kv # rest) ts =
     (case processContentEntry file isSplit multiContent (snd kv) ts of
        Inl p \<Rightarrow> Inl p
      | Inr ts' \<Rightarrow> processContents file isSplit multiContent rest ts')"

text \<open>
  What the loop over the files does once the name's last two bytes have decided
  \<open>isSplit\<close>: the extension filter, the resolver and the content entries.
\<close>

definition classifyFile ::
  "Env \<Rightarrow> ExtendedFileInfo \<Rightarrow> string \<Rightarrow> string \<Rightarrow> bool \<Rightarrow> ScanState \<Rightarrow> go_panic + ScanState" where
  "classifyFile env file filePath fileName isSplit st =
     (if \<not> isSplit \<and> \<not> HasSuffix fileName ''xci'' \<and> \<not> HasSuffix fileName ''nsp''
         \<and> \<not> HasSuffix fileName ''nsz'' \<and> \<not> HasSuffix fileName ''xcz''
      then Inr (st\<lparr>skipped := (skipped st)(file \<mapsto>
                  skip REASON_UNSUPPORTED_TYPE ''file type is not supported'')\<rparr>)
      else
        (case getGameMetadata env file filePath (skipped st) (db st) of
           (Inl (Panic p), skp, d) \<Rightarrow> Inl p
         | (Inl (Error err), skp, d) \<Rightarrow>
             Inr (st\<lparr>skipped :=
                        (case skp file of
                           Some already \<Rightarrow> skp
                         | None \<Rightarrow> skp(file \<mapsto> skip REASON_UNRECOGNISED
                             (''unable to determine title-Id / version - '' @ err))),
                     db := d\<rparr>)
         | (Inr contentMap, skp, d) \<Rightarrow>
             (case processContents file isSplit (length contentMap > 1) contentMap
                     (titles st, skp) of
                Inl p \<Rightarrow> Inl p
              | Inr ts \<Rightarrow> Inr \<lparr>titles = fst ts, skipped = snd ts, db = d\<rparr>)))"

text \<open>The body of the loop over the files. The progress sink only observes.\<close>

definition processLocalFile :: "Env \<Rightarrow> ExtendedFileInfo \<Rightarrow> ScanState \<Rightarrow> go_panic + ScanState" where
  "processLocalFile env file st =
     (case Info file of
        None \<Rightarrow> Inl NilPointerDereference
      | Some info \<Rightarrow>
          (let filePath = filepath_Join env (BaseFolder file) (Name info) in
           if IsDir info then Inr st
           else
             (let fileName = ToLower (Name info) in
              if length fileName < 2 then Inl SliceBoundsOutOfRange
              else
                (case Atoi (drop (length fileName - 2) fileName) of
                   Some partNum \<Rightarrow>
                     if partNum = 0 then classifyFile env file filePath fileName True st
                     else Inr st
                 | None \<Rightarrow> classifyFile env file filePath fileName False st))))"

fun processLocalFiles :: "Env \<Rightarrow> ExtendedFileInfo list \<Rightarrow> ScanState \<Rightarrow> go_panic + ScanState" where
  "processLocalFiles env [] st = Inr st"
| "processLocalFiles env (file # files) st =
     (case processLocalFile env file st of
        Inl p \<Rightarrow> Inl p
      | Inr st' \<Rightarrow> processLocalFiles env files st')"

section \<open>The fallback parser's tokens, in the words of the specification\<close>







section \<open>Notions used to state the classifier's properties\<close>

text \<open>
  The title-id prefix that keys the catalog, the record the loop body works on (fetched,
  or created when the prefix is new), the three ways of installing a file in a record,
  the states a scan reaches from the empty catalog, what a finished scan shows of a file
  or a title, and a scan without the deep-parsing capability used for the examples.
\<close>

definition titlePrefix :: "string \<Rightarrow> string" where
  "titlePrefix titleId = take (length titleId - 4) titleId"

definition titleRecord :: "Titles \<Rightarrow> string \<Rightarrow> bool \<Rightarrow> bool \<Rightarrow> SwitchGameFiles" where
  "titleRecord ttl p multiContent isSplit =
     (case ttl p of Some t \<Rightarrow> t | None \<Rightarrow> new_SwitchGameFiles multiContent isSplit)"

definition title_ok :: "SwitchGameFiles \<Rightarrow> bool" where
  "title_ok t =
     (0 \<le> LatestUpdate t
      \<and> (LatestUpdate t \<noteq> 0 \<longrightarrow> Updates t (LatestUpdate t) \<noteq> None)
      \<and> (\<forall>v u. Updates t v = Some u \<longrightarrow> v \<le> LatestUpdate t \<and> Info (ExtendedInfo u) \<noteq> None)
      \<and> (\<forall>k e. Dlc t k = Some e \<longrightarrow> Info (ExtendedInfo e) \<noteq> None \<and> Metadata e \<noteq> None)
      \<and> (BaseExist t \<longrightarrow> Info (ExtendedInfo (File t)) \<noteq> None))"

definition titles_ok :: "Titles \<Rightarrow> bool" where
  "titles_ok ttl = (\<forall>p t. ttl p = Some t \<longrightarrow> title_ok t)"

definition old_update :: SkippedFile where
  "old_update = skip REASON_OLD_UPDATE ''old update file, newer update exist locally''"

definition installUpdate :: "ExtendedFileInfo \<Rightarrow> ContentMetaAttributes \<Rightarrow> SwitchGameFiles \<Rightarrow> SwitchGameFiles" where
  "installUpdate file md t =
     t\<lparr>Updates := (Updates t)(Version md \<mapsto>
          \<lparr>ExtendedInfo = file, Metadata = Some (md\<lparr>Type := ''Update''\<rparr>)\<rparr>)\<rparr>"

definition installBase :: "ExtendedFileInfo \<Rightarrow> ContentMetaAttributes \<Rightarrow> SwitchGameFiles \<Rightarrow> SwitchGameFiles" where
  "installBase file md t =
     t\<lparr>File := \<lparr>ExtendedInfo = file, Metadata = Some (md\<lparr>Type := ''Base''\<rparr>)\<rparr>,
       BaseExist := True\<rparr>"

definition installDlc :: "ExtendedFileInfo \<Rightarrow> ContentMetaAttributes \<Rightarrow> SwitchGameFiles \<Rightarrow> SwitchGameFiles" where
  "installDlc file md t =
     t\<lparr>Dlc := (Dlc t)(TitleId md \<mapsto>
          \<lparr>ExtendedInfo = file, Metadata = Some (md\<lparr>Type := ''DLC''\<rparr>)\<rparr>)\<rparr>"

definition dlc_newer :: "SwitchFileInfo \<Rightarrow> SwitchFileInfo \<Rightarrow> bool" where
  "dlc_newer e e' =
     (\<exists>m m'. Metadata e = Some m \<and> Metadata e' = Some m' \<and> Version m < Version m')"

definition dlc_replaceable :: "SwitchGameFiles \<Rightarrow> ContentMetaAttributes \<Rightarrow> bool" where
  "dlc_replaceable t md =
     (Dlc t (TitleId md) = None
      \<or> (\<exists>dlc dm. Dlc t (TitleId md) = Some dlc \<and> Metadata dlc = Some dm
            \<and> Version dm < Version md))"

definition title_grows :: "SwitchGameFiles \<Rightarrow> SwitchGameFiles \<Rightarrow> bool" where
  "title_grows t t' =
     (LatestUpdate t \<le> LatestUpdate t'
      \<and> (BaseExist t \<longrightarrow> BaseExist t' \<and> File t' = File t)
      \<and> (\<forall>v u. Updates t v = Some u \<longrightarrow> Updates t' v = Some u)
      \<and> (\<forall>k e. Dlc t k = Some e \<longrightarrow>
            (\<exists>e'. Dlc t' k = Some e' \<and> (e' = e \<or> dlc_newer e e'))))"

definition grows :: "Titles \<times> Skipped \<Rightarrow> Titles \<times> Skipped \<Rightarrow> bool" where
  "grows ts ts' =
     ((\<forall>p t. fst ts p = Some t \<longrightarrow> (\<exists>t'. fst ts' p = Some t' \<and> title_grows t t'))
      \<and> dom (snd ts) \<subseteq> dom (snd ts'))"

definition reached :: "Env \<Rightarrow> ExtendedFileInfo list \<Rightarrow> DB \<Rightarrow> ScanState \<Rightarrow> bool" where
  "reached env files d0 st =
     (processLocalFiles env files \<lparr>titles = Map.empty, skipped = Map.empty, db = d0\<rparr> = Inr st)"

definition skip_reason :: "go_panic + ScanState \<Rightarrow> ExtendedFileInfo \<Rightarrow> int option" where
  "skip_reason r f =
     (case r of Inl p \<Rightarrow> None | Inr st \<Rightarrow> map_option ReasonCode (skipped st f))"

definition latest_update :: "go_panic + ScanState \<Rightarrow> string \<Rightarrow> int option" where
  "latest_update r p =
     (case r of Inl q \<Rightarrow> None | Inr st \<Rightarrow> map_option LatestUpdate (titles st p))"

definition update_file :: "go_panic + ScanState \<Rightarrow> string \<Rightarrow> int \<Rightarrow> ExtendedFileInfo option" where
  "update_file r p v =
     (case r of
        Inl q \<Rightarrow> None
      | Inr st \<Rightarrow>
          (case titles st p of
             None \<Rightarrow> None
           | Some t \<Rightarrow> map_option ExtendedInfo (Updates t v)))"

definition ex_env :: Env where
  "ex_env =
     \<lparr>header_key = False,
      ReadNspMetadata = (\<lambda>path. (None, Some ''no keys'')),
      ReadXciMetadata = (\<lambda>path. (None, Some ''no keys'')),
      ReadSplitFileMetadata = (\<lambda>path. (None, Some ''no keys'')),
      filepath_Join = (\<lambda>dir name. dir @ name),
      gob_Decode = (\<lambda>bytes. (None, Some ''bad'')),
      gob_Encode = (\<lambda>m. None),
      SLM_VERSION = ''1.4.0''\<rparr>"

definition ex_file :: "string \<Rightarrow> ExtendedFileInfo" where
  "ex_file name = \<lparr>Info = Some \<lparr>Name = name, Size = 1, IsDir = False\<rparr>, BaseFolder = ''/g/''\<rparr>"

definition ex_init :: ScanState where
  "ex_init = \<lparr>titles = Map.empty, skipped = Map.empty, db = None\<rparr>"

definition skip_text :: "go_panic + ScanState \<Rightarrow> ExtendedFileInfo \<Rightarrow> string option" where
  "skip_text r f =
     (case r of Inl p \<Rightarrow> None | Inr st \<Rightarrow> map_option ReasonText (skipped st f))"

definition base_file :: "go_panic + ScanState \<Rightarrow> string \<Rightarrow> ExtendedFileInfo option" where
  "base_file r p =
     (case r of
        Inl q \<Rightarrow> None
      | Inr st \<Rightarrow>
          (case titles st p of
             None \<Rightarrow> None
           | Some t \<Rightarrow> if BaseExist t then Some (ExtendedInfo (File t)) else None))"

definition dlc_file :: "go_panic + ScanState \<Rightarrow> string \<Rightarrow> string \<Rightarrow> ExtendedFileInfo option" where
  "dlc_file r p k =
     (case r of
        Inl q \<Rightarrow> None
      | Inr st \<Rightarrow>
          (case titles st p of
             None \<Rightarrow> None
           | Some t \<Rightarrow> map_option ExtendedInfo (Dlc t k)))"

definition ex_dlc_state :: ScanState where
  "ex_dlc_state =
     \<lparr>titles = [''010000000000'' \<mapsto>
        installDlc (ex_file ''a[0100000000002001][v2].nsp'')
          \<lparr>TitleId = ''0100000000002001'', Version = 2, Type = []\<rparr>
          (new_SwitchGameFiles False False)],
      skipped = Map.empty, db = None\<rparr>"

section \<open>Notions used to state the resolver's properties\<close>

text \<open>
  The fingerprint under which a file is cached, the structural parser the resolver
  invokes for a lower-cased name (with the text its failure is reported under), a lookup
  made after the cache has been opened, and an environment with the deep-parsing
  capability used for the examples.
\<close>

definition fileKey :: "string \<Rightarrow> FileInfo \<Rightarrow> string" where
  "fileKey filePath info = filePath @ ''|'' @ Name info @ ''|'' @ Itoa (Size info)"

definition chosen_parser ::
  "Env \<Rightarrow> string \<Rightarrow> string \<Rightarrow> ((ContentMap option \<times> string option) \<times> string) option" where
  "chosen_parser env fileName filePath =
     (if HasSuffix fileName ''nsp'' \<or> HasSuffix fileName ''nsz'' then
        Some (ReadNspMetadata env filePath, ''failed to read NSP [reason: '')
      else if HasSuffix fileName ''xci'' \<or> HasSuffix fileName ''xcz'' then
        Some (ReadXciMetadata env filePath, ''failed to read NSP [reason: '')
      else if HasSuffix fileName ''00'' then
        Some (ReadSplitFileMetadata env filePath, ''failed to read split files [reason: '')
      else None)"

definition ex_keys_env :: Env where
  "ex_keys_env =
     \<lparr>header_key = True,
      ReadNspMetadata = (\<lambda>path. (None, Some ''bad magic'')),
      ReadXciMetadata =
        (\<lambda>path. (Some [(''0100000000003000'',
                          \<lparr>TitleId = ''0100000000003000'', Version = 0, Type = []\<rparr>)], None)),
      ReadSplitFileMetadata = (\<lambda>path. (None, Some ''bad magic'')),
      filepath_Join = (\<lambda>dir name. dir @ name),
      gob_Decode =
        (\<lambda>bytes. if bytes = ''gob''
                  then (Some [(''0100000000003000'',
                          \<lparr>TitleId = ''0100000000003000'', Version = 0, Type = []\<rparr>)], None)
                  else (None, Some ''unexpected EOF'')),
      gob_Encode = (\<lambda>m. Some ''gob''),
      SLM_VERSION = ''1.4.0''\<rparr>"

definition lookup_after_open :: "Env \<Rightarrow> string + DB \<Rightarrow> string \<Rightarrow> ContentMap option" where
  "lookup_after_open env opened key =
     (case NewLocalSwitchDBManager opened of
        Inl err \<Rightarrow> None
      | Inr d \<Rightarrow> cacheGet env d key)"

definition ex_stale_bucket :: Bucket where
  "ex_stale_bucket = [''app_version'' \<mapsto> ''1.3.0'', ''/g/g.xci|g.xci|1'' \<mapsto> ''gob'']"

section \<open>Properties of the fallback name parser\<close>




lemma not_digit_marks [simp]:
  "\<not> is_digit CHR ''v''" "\<not> is_digit CHR ''V''" "\<not> is_digit CHR '']''"
  "\<not> is_digit CHR ''+''" "\<not> is_digit CHR ''-''"
  by (simp_all add: is_digit_def)





















section \<open>Properties of the title classifier\<close>

lemma title_ok_new: "title_ok (new_SwitchGameFiles mc sp)"
  by (simp add: title_ok_def new_SwitchGameFiles_def)

lemma title_ok_record: "titles_ok ttl \<Longrightarrow> title_ok (titleRecord ttl p mc sp)"
  by (auto simp: titles_ok_def titleRecord_def title_ok_new split: option.splits)

lemma pce_short:
  "length (TitleId md) < 4 \<Longrightarrow>
   processContentEntry file sp mc md (ttl, skp) = Inl SliceBoundsOutOfRange"
  by (simp add: processContentEntry_def)

lemma pce_update_duplicate:
  assumes "4 \<le> length (TitleId md)" "HasSuffix (TitleId md) ''800''"
    and "Updates (titleRecord ttl (titlePrefix (TitleId md)) mc sp) (Version md) = Some u"
  shows "processContentEntry file sp mc md (ttl, skp) =
     (case Info (ExtendedInfo u) of
        None \<Rightarrow> Inl NilPointerDereference
      | Some ui \<Rightarrow>
          Inr (ttl(titlePrefix (TitleId md) \<mapsto> titleRecord ttl (titlePrefix (TitleId md)) mc sp),
               skp(file \<mapsto> skip REASON_DUPLICATE (''duplicate update file ('' @ Name ui @ '')''))))"
  using assms
  unfolding processContentEntry_def titlePrefix_def titleRecord_def Let_def
  by (simp split: option.splits)

lemma pce_update_newer:
  assumes "4 \<le> length (TitleId md)" "HasSuffix (TitleId md) ''800''"
    and "Updates (titleRecord ttl (titlePrefix (TitleId md)) mc sp) (Version md) = None"
    and "LatestUpdate (titleRecord ttl (titlePrefix (TitleId md)) mc sp) < Version md"
  shows "processContentEntry file sp mc md (ttl, skp) =
     Inr (ttl(titlePrefix (TitleId md) \<mapsto>
            (installUpdate file md (titleRecord ttl (titlePrefix (TitleId md)) mc sp))
              \<lparr>LatestUpdate := Version md\<rparr>),
          (if LatestUpdate (titleRecord ttl (titlePrefix (TitleId md)) mc sp) \<noteq> 0 then
             skp(ExtendedInfo
                   (case Updates (titleRecord ttl (titlePrefix (TitleId md)) mc sp)
                           (LatestUpdate (titleRecord ttl (titlePrefix (TitleId md)) mc sp)) of
                      Some previous \<Rightarrow> previous
                    | None \<Rightarrow> zero_SwitchFileInfo) \<mapsto> old_update)
           else skp))"
  using assms
  unfolding processContentEntry_def titlePrefix_def titleRecord_def Let_def
      installUpdate_def old_update_def
  by simp

lemma pce_update_older:
  assumes "4 \<le> length (TitleId md)" "HasSuffix (TitleId md) ''800''"
    and "Updates (titleRecord ttl (titlePrefix (TitleId md)) mc sp) (Version md) = None"
    and "Version md \<le> LatestUpdate (titleRecord ttl (titlePrefix (TitleId md)) mc sp)"
  shows "processContentEntry file sp mc md (ttl, skp) =
     Inr (ttl(titlePrefix (TitleId md) \<mapsto>
            installUpdate file md (titleRecord ttl (titlePrefix (TitleId md)) mc sp)),
          skp(file \<mapsto> old_update))"
  using assms
  unfolding processContentEntry_def titlePrefix_def titleRecord_def Let_def
      installUpdate_def old_update_def
  by simp

lemma pce_base_first:
  assumes "4 \<le> length (TitleId md)" "\<not> HasSuffix (TitleId md) ''800''"
    and "HasSuffix (TitleId md) ''000''"
    and "\<not> BaseExist (titleRecord ttl (titlePrefix (TitleId md)) mc sp)"
  shows "processContentEntry file sp mc md (ttl, skp) =
     Inr (ttl(titlePrefix (TitleId md) \<mapsto>
            installBase file md (titleRecord ttl (titlePrefix (TitleId md)) mc sp)),
          skp)"
  using assms
  unfolding processContentEntry_def titlePrefix_def titleRecord_def Let_def installBase_def
  by simp

lemma pce_base_duplicate:
  assumes "4 \<le> length (TitleId md)" "\<not> HasSuffix (TitleId md) ''800''"
    and "HasSuffix (TitleId md) ''000''"
    and "BaseExist (titleRecord ttl (titlePrefix (TitleId md)) mc sp)"
  shows "processContentEntry file sp mc md (ttl, skp) =
     (case Info (ExtendedInfo (File (titleRecord ttl (titlePrefix (TitleId md)) mc sp))) of
        None \<Rightarrow> Inl NilPointerDereference
      | Some bi \<Rightarrow>
          Inr (ttl(titlePrefix (TitleId md) \<mapsto> titleRecord ttl (titlePrefix (TitleId md)) mc sp),
               skp(file \<mapsto> skip REASON_DUPLICATE (''duplicate base file ('' @ Name bi @ '')''))))"
  using assms
  unfolding processContentEntry_def titlePrefix_def titleRecord_def Let_def
  by (simp split: option.splits)

lemma pce_dlc_first:
  assumes "4 \<le> length (TitleId md)" "\<not> HasSuffix (TitleId md) ''800''"
    and "\<not> HasSuffix (TitleId md) ''000''"
    and "Dlc (titleRecord ttl (titlePrefix (TitleId md)) mc sp) (TitleId md) = None"
  shows "processContentEntry file sp mc md (ttl, skp) =
     Inr (ttl(titlePrefix (TitleId md) \<mapsto>
            installDlc file md (titleRecord ttl (titlePrefix (TitleId md)) mc sp)),
          skp)"
  using assms
  unfolding processContentEntry_def titlePrefix_def titleRecord_def Let_def installDlc_def
  by simp

lemma pce_dlc_stored:
  assumes "4 \<le> length (TitleId md)" "\<not> HasSuffix (TitleId md) ''800''"
    and "\<not> HasSuffix (TitleId md) ''000''"
    and "Dlc (titleRecord ttl (titlePrefix (TitleId md)) mc sp) (TitleId md) = Some dlc"
    and "Metadata dlc = Some dm" and "Info (ExtendedInfo dlc) = Some di"
  shows "processContentEntry file sp mc md (ttl, skp) =
     (if Version md < Version dm then
        Inr (ttl(titlePrefix (TitleId md) \<mapsto> titleRecord ttl (titlePrefix (TitleId md)) mc sp),
             skp(file \<mapsto> skip REASON_OLD_UPDATE ''old DLC file, newer version exist locally''))
      else if Version md = Version dm then
        Inr (ttl(titlePrefix (TitleId md) \<mapsto> titleRecord ttl (titlePrefix (TitleId md)) mc sp),
             skp(file \<mapsto> skip REASON_DUPLICATE (''duplicate DLC file ('' @ Name di @ '')'')))
      else
        Inr (ttl(titlePrefix (TitleId md) \<mapsto>
               installDlc file md (titleRecord ttl (titlePrefix (TitleId md)) mc sp)),
             skp))"
  using assms
  unfolding processContentEntry_def titlePrefix_def titleRecord_def Let_def installDlc_def
  by simp

lemma pce_dlc_nil:
  assumes "4 \<le> length (TitleId md)" "\<not> HasSuffix (TitleId md) ''800''"
    and "\<not> HasSuffix (TitleId md) ''000''"
    and "Dlc (titleRecord ttl (titlePrefix (TitleId md)) mc sp) (TitleId md) = Some dlc"
    and "Metadata dlc = None \<or> Info (ExtendedInfo dlc) = None"
  shows "processContentEntry file sp mc md (ttl, skp) =
     (case Metadata dlc of
        None \<Rightarrow> Inl NilPointerDereference
      | Some dm \<Rightarrow>
          if Version md \<le> Version dm then Inl NilPointerDereference
          else Inr (ttl(titlePrefix (TitleId md) \<mapsto>
                 installDlc file md (titleRecord ttl (titlePrefix (TitleId md)) mc sp)),
               skp))"
  using assms
  unfolding processContentEntry_def titlePrefix_def titleRecord_def Let_def installDlc_def
  by (auto split: option.splits)

text \<open>Every successful step rewrites one title record and at most one skip entry.\<close>

lemma pce_shape:
  assumes "processContentEntry file sp mc md (ttl, skp) = Inr (ttl', skp')"
  shows "4 \<le> length (TitleId md) \<and>
     (\<exists>t'. ttl' = ttl(titlePrefix (TitleId md) \<mapsto> t') \<and>
        (let t = titleRecord ttl (titlePrefix (TitleId md)) mc sp in
           (t' = t \<and> (\<exists>r. skp' = skp(file \<mapsto> r)))
         \<or> (HasSuffix (TitleId md) ''800'' \<and> Updates t (Version md) = None \<and>
              LatestUpdate t < Version md \<and>
              t' = (installUpdate file md t)\<lparr>LatestUpdate := Version md\<rparr> \<and>
              (skp' = skp \<or>
               LatestUpdate t \<noteq> 0 \<and>
               skp' = skp(ExtendedInfo (case Updates t (LatestUpdate t) of
                                          Some previous \<Rightarrow> previous
                                        | None \<Rightarrow> zero_SwitchFileInfo) \<mapsto> old_update)))
         \<or> (HasSuffix (TitleId md) ''800'' \<and> Updates t (Version md) = None \<and>
              Version md \<le> LatestUpdate t \<and>
              t' = installUpdate file md t \<and> skp' = skp(file \<mapsto> old_update))
         \<or> (\<not> BaseExist t \<and> t' = installBase file md t \<and> skp' = skp)
         \<or> (dlc_replaceable t md \<and> t' = installDlc file md t \<and> skp' = skp)))"
proof -
  let ?t = "titleRecord ttl (titlePrefix (TitleId md)) mc sp"
  have len: "4 \<le> length (TitleId md)"
  proof (rule ccontr)
    assume "\<not> 4 \<le> length (TitleId md)"
    then have "length (TitleId md) < 4" by simp
    from pce_short [OF this] assms show False by simp
  qed
  show ?thesis
  proof (cases "HasSuffix (TitleId md) ''800''")
    case u: True
    show ?thesis
    proof (cases "Updates ?t (Version md)")
      case None
      show ?thesis
      proof (cases "LatestUpdate ?t < Version md")
        case True
        from assms show ?thesis
          unfolding pce_update_newer [OF len u None True] Let_def
          by (auto simp: None True u len split: if_splits)
      next
        case False
        then have le: "Version md \<le> LatestUpdate ?t" by simp
        from assms show ?thesis
          unfolding pce_update_older [OF len u None le] Let_def
          by (auto simp: None le u len)
      qed
    next
      case (Some upd)
      from assms show ?thesis
        unfolding pce_update_duplicate [OF len u Some] Let_def
        by (auto simp: len split: option.splits)
    qed
  next
    case nu: False
    show ?thesis
    proof (cases "HasSuffix (TitleId md) ''000''")
      case b: True
      show ?thesis
      proof (cases "BaseExist ?t")
        case True
        from assms show ?thesis
          unfolding pce_base_duplicate [OF len nu b True] Let_def
          by (auto simp: len split: option.splits)
      next
        case False
        from assms show ?thesis
          unfolding pce_base_first [OF len nu b False] Let_def
          by (auto simp: len False)
      qed
    next
      case nb: False
      show ?thesis
      proof (cases "Dlc ?t (TitleId md)")
        case None
        from assms show ?thesis
          unfolding pce_dlc_first [OF len nu nb None] Let_def
          by (auto simp: len None dlc_replaceable_def)
      next
        case (Some dlc)
        show ?thesis
        proof (cases "Metadata dlc = None \<or> Info (ExtendedInfo dlc) = None")
          case True
          from assms show ?thesis
            unfolding pce_dlc_nil [OF len nu nb Some True] Let_def
            by (auto simp: len Some dlc_replaceable_def split: option.splits if_splits)
        next
          case False
          then obtain dm di where st: "Metadata dlc = Some dm" "Info (ExtendedInfo dlc) = Some di"
            by auto
          from assms show ?thesis
            unfolding pce_dlc_stored [OF len nu nb Some st] Let_def
            by (auto simp: len Some st dlc_replaceable_def split: if_splits)
        qed
      qed
    qed
  qed
qed

lemma title_grows_refl: "title_grows t t"
  by (simp add: title_grows_def)

lemma dlc_newer_trans: "dlc_newer a b \<Longrightarrow> dlc_newer b c \<Longrightarrow> dlc_newer a c"
  unfolding dlc_newer_def by fastforce

lemma title_grows_trans:
  assumes "title_grows a b" "title_grows b c"
  shows "title_grows a c"
proof -
  have "\<exists>e'. Dlc c k = Some e' \<and> (e' = e \<or> dlc_newer e e')" if "Dlc a k = Some e" for k e
  proof -
    from assms(1) that obtain e1 where 1: "Dlc b k = Some e1" "e1 = e \<or> dlc_newer e e1"
      unfolding title_grows_def by blast
    from assms(2) 1(1) obtain e2 where 2: "Dlc c k = Some e2" "e2 = e1 \<or> dlc_newer e1 e2"
      unfolding title_grows_def by blast
    from 1(2) 2(2) have "e2 = e \<or> dlc_newer e e2"
      using dlc_newer_trans by blast
    with 2(1) show ?thesis by blast
  qed
  moreover from assms have "LatestUpdate a \<le> LatestUpdate c"
    and "BaseExist a \<longrightarrow> BaseExist c \<and> File c = File a"
    and "\<forall>v u. Updates a v = Some u \<longrightarrow> Updates c v = Some u"
    unfolding title_grows_def by auto
  ultimately show ?thesis unfolding title_grows_def by blast
qed

lemma grows_refl: "grows ts ts"
  by (auto simp: grows_def title_grows_refl)

lemma grows_trans:
  assumes ab: "grows a b" and bc: "grows b c"
  shows "grows a c"
proof -
  have "\<exists>t'. fst c p = Some t' \<and> title_grows t t'" if "fst a p = Some t" for p t
  proof -
    from ab that obtain u where u: "fst b p = Some u" "title_grows t u"
      unfolding grows_def by blast
    from bc u(1) obtain w where w: "fst c p = Some w" "title_grows u w"
      unfolding grows_def by blast
    from u(2) w show ?thesis using title_grows_trans by blast
  qed
  moreover from ab bc have "dom (snd a) \<subseteq> dom (snd c)"
    unfolding grows_def by blast
  ultimately show ?thesis unfolding grows_def by blast
qed

lemma grows_installUpdate:
  "Updates t (Version md) = None \<Longrightarrow> title_grows t (installUpdate file md t)"
  by (simp add: title_grows_def installUpdate_def)

lemma grows_installUpdate_latest:
  "Updates t (Version md) = None \<Longrightarrow> LatestUpdate t < Version md \<Longrightarrow>
   title_grows t ((installUpdate file md t)\<lparr>LatestUpdate := Version md\<rparr>)"
  by (simp add: title_grows_def installUpdate_def)

lemma grows_installBase: "\<not> BaseExist t \<Longrightarrow> title_grows t (installBase file md t)"
  by (simp add: title_grows_def installBase_def)

lemma grows_installDlc:
  "dlc_replaceable t md \<Longrightarrow> title_grows t (installDlc file md t)"
  unfolding title_grows_def installDlc_def dlc_replaceable_def dlc_newer_def
  by auto

lemma ok_installUpdate:
  "title_ok t \<Longrightarrow> Info file \<noteq> None \<Longrightarrow> Version md \<le> LatestUpdate t \<Longrightarrow>
   title_ok (installUpdate file md t)"
  unfolding title_ok_def installUpdate_def by auto

lemma ok_installUpdate_latest:
  assumes "title_ok t" "Info file \<noteq> None" "LatestUpdate t < Version md"
  shows "title_ok ((installUpdate file md t)\<lparr>LatestUpdate := Version md\<rparr>)"
proof -
  from assms(1) have "\<forall>v u. Updates t v = Some u \<longrightarrow> v \<le> Version md"
    using assms(3) unfolding title_ok_def by (meson less_imp_le order_trans)
  with assms show ?thesis
    unfolding title_ok_def installUpdate_def by auto
qed

lemma ok_installBase:
  "title_ok t \<Longrightarrow> Info file \<noteq> None \<Longrightarrow> title_ok (installBase file md t)"
  by (simp add: title_ok_def installBase_def)

lemma ok_installDlc:
  "title_ok t \<Longrightarrow> Info file \<noteq> None \<Longrightarrow> title_ok (installDlc file md t)"
  by (simp add: title_ok_def installDlc_def)

lemma pce_step:
  assumes r: "processContentEntry file sp mc md (ttl, skp) = Inr (ttl', skp')"
  shows "grows (ttl, skp) (ttl', skp')
     \<and> (titles_ok ttl \<and> Info file \<noteq> None \<longrightarrow> titles_ok ttl')"
proof -
  let ?p = "titlePrefix (TitleId md)"
  let ?t = "titleRecord ttl ?p mc sp"
  from pce_shape [OF r] obtain t' where t': "ttl' = ttl(?p \<mapsto> t')"
    and sh: "(t' = ?t \<and> (\<exists>r. skp' = skp(file \<mapsto> r)))
         \<or> (HasSuffix (TitleId md) ''800'' \<and> Updates ?t (Version md) = None \<and>
              LatestUpdate ?t < Version md \<and>
              t' = (installUpdate file md ?t)\<lparr>LatestUpdate := Version md\<rparr> \<and>
              (skp' = skp \<or>
               LatestUpdate ?t \<noteq> 0 \<and>
               skp' = skp(ExtendedInfo (case Updates ?t (LatestUpdate ?t) of
                                          Some previous \<Rightarrow> previous
                                        | None \<Rightarrow> zero_SwitchFileInfo) \<mapsto> old_update)))
         \<or> (HasSuffix (TitleId md) ''800'' \<and> Updates ?t (Version md) = None \<and>
              Version md \<le> LatestUpdate ?t \<and>
              t' = installUpdate file md ?t \<and> skp' = skp(file \<mapsto> old_update))
         \<or> (\<not> BaseExist ?t \<and> t' = installBase file md ?t \<and> skp' = skp)
         \<or> (dlc_replaceable ?t md \<and> t' = installDlc file md ?t \<and> skp' = skp)"
    unfolding Let_def by blast
  from sh have g: "title_grows ?t t'"
    using title_grows_refl grows_installUpdate grows_installUpdate_latest
      grows_installBase grows_installDlc by blast
  from sh have d: "dom skp \<subseteq> dom skp'" by auto
  have "\<exists>u'. ttl' q = Some u' \<and> title_grows u u'" if q: "ttl q = Some u" for q u
  proof (cases "q = ?p")
    case True
    with q have "?t = u" by (simp add: titleRecord_def)
    with g True t' show ?thesis by auto
  next
    case False
    with q t' show ?thesis by (auto simp: title_grows_refl)
  qed
  with d have 1: "grows (ttl, skp) (ttl', skp')" by (simp add: grows_def)
  have 2: "titles_ok ttl'" if ok: "titles_ok ttl" and fi: "Info file \<noteq> None"
  proof -
    from ok have ok_t: "title_ok ?t" by (rule title_ok_record)
    from sh have "title_ok t'"
      using ok_t ok_installUpdate [OF ok_t fi] ok_installUpdate_latest [OF ok_t fi]
        ok_installBase [OF ok_t fi] ok_installDlc [OF ok_t fi] by blast
    with ok t' show ?thesis by (auto simp: titles_ok_def)
  qed
  from 1 2 show ?thesis by blast
qed

lemma processContents_step:
  assumes "processContents file sp mc cm ts = Inr ts'"
  shows "grows ts ts' \<and> (titles_ok (fst ts) \<and> Info file \<noteq> None \<longrightarrow> titles_ok (fst ts'))"
  using assms
proof (induction cm arbitrary: ts)
  case Nil
  then show ?case by (simp add: grows_refl)
next
  case (Cons kv rest)
  from Cons.prems obtain mid where m: "processContentEntry file sp mc (snd kv) ts = Inr mid"
    and r: "processContents file sp mc rest mid = Inr ts'"
    by (auto split: sum.splits)
  from m have "processContentEntry file sp mc (snd kv) (fst ts, snd ts) = Inr (fst mid, snd mid)"
    by simp
  from pce_step [OF this] have a: "grows ts mid"
    and b: "titles_ok (fst ts) \<and> Info file \<noteq> None \<longrightarrow> titles_ok (fst mid)"
    by simp_all
  from Cons.IH [OF r] a b show ?case
    using grows_trans by blast
qed

lemma readStructural_skipped:
  assumes "readStructural env file name path skp = (m, skp')"
  shows "skp' = skp \<or> (\<exists>e. skp' = skp(file \<mapsto> e) \<and> ReasonCode e = REASON_MALFORMED_FILE)"
  using assms unfolding readStructural_def malformed_def
  by (auto split: if_splits prod.splits option.splits)

lemma getGameMetadata_skipped:
  assumes "getGameMetadata env file path skp d = (r, skp', d')"
  shows "skp' = skp \<or> (\<exists>e. skp' = skp(file \<mapsto> e) \<and> ReasonCode e = REASON_MALFORMED_FILE)"
proof (cases "Info file")
  case None
  with assms show ?thesis by (simp add: getGameMetadata_def)
next
  case (Some info)
  show ?thesis
  proof (cases "header_key env")
    case False
    with assms Some show ?thesis by (simp add: getGameMetadata_def Let_def)
  next
    case True
    let ?key = "path @ ''|'' @ Name info @ ''|'' @ Itoa (Size info)"
    show ?thesis
    proof (cases "cacheGet env d ?key")
      case (Some m)
      with assms \<open>Info file = Some info\<close> True show ?thesis
        by (simp add: getGameMetadata_def Let_def)
    next
      case None
      obtain m s1 where rs: "readStructural env file (ToLower (Name info)) path skp = (m, s1)"
        by (cases "readStructural env file (ToLower (Name info)) path skp")
      with assms \<open>Info file = Some info\<close> True None have "skp' = s1"
        by (auto simp: getGameMetadata_def Let_def split: option.splits)
      with readStructural_skipped [OF rs] show ?thesis by simp
    qed
  qed
qed

lemma classifyFile_step:
  assumes "classifyFile env file path name sp st = Inr st'"
  shows "grows (titles st, skipped st) (titles st', skipped st')
     \<and> (titles_ok (titles st) \<and> Info file \<noteq> None \<longrightarrow> titles_ok (titles st'))"
proof (cases "\<not> sp \<and> \<not> HasSuffix name ''xci'' \<and> \<not> HasSuffix name ''nsp''
         \<and> \<not> HasSuffix name ''nsz'' \<and> \<not> HasSuffix name ''xcz''")
  case True
  with assms have "st' = st\<lparr>skipped := (skipped st)(file \<mapsto>
                  skip REASON_UNSUPPORTED_TYPE ''file type is not supported'')\<rparr>"
    unfolding classifyFile_def by auto
  then show ?thesis
    by (auto simp: grows_def title_grows_refl)
next
  case False
  obtain r skp d where g: "getGameMetadata env file path (skipped st) (db st) = (r, skp, d)"
    by (cases "getGameMetadata env file path (skipped st) (db st)")
  from getGameMetadata_skipped [OF g] have sk: "dom (skipped st) \<subseteq> dom skp" by auto
  show ?thesis
  proof (cases r)
    case (Inl f)
    show ?thesis
    proof (cases f)
      case (Panic p)
      with assms False g Inl show ?thesis
        unfolding classifyFile_def by auto
    next
      case (Error err)
      with assms False g Inl have "titles st' = titles st" "dom skp \<subseteq> dom (skipped st')"
        unfolding classifyFile_def by (auto split: option.splits)
      with sk show ?thesis
        by (auto simp: grows_def title_grows_refl)
    qed
  next
    case (Inr cm)
    with assms False g obtain ts where
      pc: "processContents file sp (length cm > 1) cm (titles st, skp) = Inr ts"
      and s': "st' = \<lparr>titles = fst ts, skipped = snd ts, db = d\<rparr>"
      unfolding classifyFile_def by (auto split: sum.splits)
    from processContents_step [OF pc] have "grows (titles st, skp) ts"
      and ok: "titles_ok (titles st) \<and> Info file \<noteq> None \<longrightarrow> titles_ok (fst ts)"
      by simp_all
    moreover have "grows (titles st, skipped st) (titles st, skp)"
      using sk by (auto simp: grows_def title_grows_refl)
    ultimately have "grows (titles st, skipped st) ts"
      using grows_trans by blast
    with ok s' show ?thesis by simp
  qed
qed

lemma processLocalFile_step:
  assumes "processLocalFile env file st = Inr st'"
  shows "grows (titles st, skipped st) (titles st', skipped st')
     \<and> (titles_ok (titles st) \<longrightarrow> titles_ok (titles st'))"
proof -
  from assms obtain info where i: "Info file = Some info"
    unfolding processLocalFile_def by (auto split: option.splits)
  from assms i
  have "st' = st \<or> (\<exists>path name sp. classifyFile env file path name sp st = Inr st')"
    unfolding processLocalFile_def Let_def
    by (auto split: if_splits option.splits)
  then show ?thesis
  proof
    assume "st' = st"
    then show ?thesis by (simp add: grows_refl)
  next
    assume "\<exists>path name sp. classifyFile env file path name sp st = Inr st'"
    then obtain path name sp where "classifyFile env file path name sp st = Inr st'"
      by blast
    from classifyFile_step [OF this] i show ?thesis by simp
  qed
qed

lemma processLocalFiles_step:
  assumes "processLocalFiles env files st = Inr st'"
  shows "grows (titles st, skipped st) (titles st', skipped st')
     \<and> (titles_ok (titles st) \<longrightarrow> titles_ok (titles st'))"
  using assms
proof (induction files arbitrary: st)
  case Nil
  then show ?case by (simp add: grows_refl)
next
  case (Cons f fs)
  from Cons.prems obtain mid where m: "processLocalFile env f st = Inr mid"
    and r: "processLocalFiles env fs mid = Inr st'"
    by (auto split: sum.splits)
  from processLocalFile_step [OF m] Cons.IH [OF r] show ?case
    using grows_trans by blast
qed

lemma reached_ok: "reached env files d0 st \<Longrightarrow> titles_ok (titles st)"
  unfolding reached_def using processLocalFiles_step [of env files _ st]
  by (fastforce simp: titles_ok_def)

lemma t1: "latest_update (processLocalFiles ex_env
     [ex_file ''[0100000000001800][v3].nsp'', ex_file ''[0100000000001800][v1].nsp'',
      ex_file ''[0100000000001800][v5].nsp''] ex_init) ''010000000000'' = Some 5"
  by code_simp

lemma t2: "skip_reason (processLocalFiles ex_env
     [ex_file ''[0100000000001800][v3].nsp'', ex_file ''[0100000000001800][v1].nsp'',
      ex_file ''[0100000000001800][v5].nsp''] ex_init) (ex_file ''[0100000000001800][v3].nsp'') = Some REASON_OLD_UPDATE"
  by code_simp

lemma reached_record_ok:
  "reached env files d0 st \<Longrightarrow> title_ok (titleRecord (titles st) p mc sp)"
  by (rule title_ok_record) (rule reached_ok)

lemma run_grows:
  assumes "processLocalFiles env later_files st = Inr st'" and "titles st q = Some u"
  shows "\<exists>u'. titles st' q = Some u' \<and> title_grows u u'"
  using processLocalFiles_step [OF assms(1)] assms(2) unfolding grows_def by auto

text \<open>
  Claim C4. In every state a scan reaches from the empty catalog, an update entry (title
  id ending in \<open>800\<close>) for a file is handled as follows. When an update of the same
  version is stored, the file is skipped as a duplicate and the record is left as it is.
  When its version is above the record's latest-update version, the entry is installed
  and becomes the latest, and the file that held the latest version before, if there was
  one, goes to the skip list as an old update. When its version is not stored and not
  above the latest, the file itself goes to the skip list as an old update. Over any
  further scan no record's latest-update version decreases. For the versions 3, 1, 5 in
  this order the latest is 5, held by the third file, and the first two files are skipped
  as old updates.
\<close>

theorem update_resolution:
  fixes st :: ScanState and md :: ContentMetaAttributes and mc sp :: bool
    and f :: ExtendedFileInfo
  defines "p \<equiv> titlePrefix (TitleId md)"
  defines "t \<equiv> titleRecord (titles st) p mc sp"
  defines "step \<equiv> processContentEntry f sp mc md (titles st, skipped st)"
  assumes run: "reached env files d0 st"
    and fi: "Info f \<noteq> None"
    and len: "4 \<le> length (TitleId md)"
    and upd: "HasSuffix (TitleId md) ''800''"
  shows "(\<forall>u. Updates t (Version md) = Some u \<longrightarrow>
            (\<exists>ui. Info (ExtendedInfo u) = Some ui \<and>
               step = Inr ((titles st)(p \<mapsto> t),
                           (skipped st)(f \<mapsto> skip REASON_DUPLICATE
                              (''duplicate update file ('' @ Name ui @ '')'')))))
       \<and> (LatestUpdate t < Version md \<and> LatestUpdate t = 0 \<longrightarrow>
            step = Inr ((titles st)(p \<mapsto> (installUpdate f md t)\<lparr>LatestUpdate := Version md\<rparr>),
                        skipped st))
       \<and> (LatestUpdate t < Version md \<and> LatestUpdate t \<noteq> 0 \<longrightarrow>
            (\<exists>previous. Updates t (LatestUpdate t) = Some previous \<and>
               step = Inr ((titles st)(p \<mapsto> (installUpdate f md t)\<lparr>LatestUpdate := Version md\<rparr>),
                           (skipped st)(ExtendedInfo previous \<mapsto>
                              skip REASON_OLD_UPDATE ''old update file, newer update exist locally''))))
       \<and> (Updates t (Version md) = None \<and> Version md \<le> LatestUpdate t \<longrightarrow>
            step = Inr ((titles st)(p \<mapsto> installUpdate f md t),
                        (skipped st)(f \<mapsto>
                           skip REASON_OLD_UPDATE ''old update file, newer update exist locally'')))
       \<and> (\<forall>later_files st' q u. processLocalFiles env later_files st = Inr st' \<and> titles st q = Some u \<longrightarrow>
            (\<exists>u'. titles st' q = Some u' \<and> LatestUpdate u \<le> LatestUpdate u'))
       \<and> latest_update (processLocalFiles ex_env
            [ex_file ''[0100000000001800][v3].nsp'', ex_file ''[0100000000001800][v1].nsp'',
             ex_file ''[0100000000001800][v5].nsp''] ex_init) ''010000000000'' = Some 5
       \<and> update_file (processLocalFiles ex_env
            [ex_file ''[0100000000001800][v3].nsp'', ex_file ''[0100000000001800][v1].nsp'',
             ex_file ''[0100000000001800][v5].nsp''] ex_init) ''010000000000'' 5
           = Some (ex_file ''[0100000000001800][v5].nsp'')
       \<and> skip_reason (processLocalFiles ex_env
            [ex_file ''[0100000000001800][v3].nsp'', ex_file ''[0100000000001800][v1].nsp'',
             ex_file ''[0100000000001800][v5].nsp''] ex_init)
            (ex_file ''[0100000000001800][v3].nsp'') = Some REASON_OLD_UPDATE
       \<and> skip_reason (processLocalFiles ex_env
            [ex_file ''[0100000000001800][v3].nsp'', ex_file ''[0100000000001800][v1].nsp'',
             ex_file ''[0100000000001800][v5].nsp''] ex_init)
            (ex_file ''[0100000000001800][v1].nsp'') = Some REASON_OLD_UPDATE
       \<and> skip_reason (processLocalFiles ex_env
            [ex_file ''[0100000000001800][v3].nsp'', ex_file ''[0100000000001800][v1].nsp'',
             ex_file ''[0100000000001800][v5].nsp''] ex_init)
            (ex_file ''[0100000000001800][v5].nsp'') = None"
proof -
  have ok: "title_ok t" unfolding t_def using run by (rule reached_record_ok)
  have dup: "\<exists>ui. Info (ExtendedInfo u) = Some ui \<and>
               step = Inr ((titles st)(p \<mapsto> t),
                           (skipped st)(f \<mapsto> skip REASON_DUPLICATE
                              (''duplicate update file ('' @ Name ui @ '')'')))"
    if u: "Updates t (Version md) = Some u" for u
  proof -
    from ok u obtain ui where ui: "Info (ExtendedInfo u) = Some ui"
      unfolding title_ok_def by blast
    from u have "Updates (titleRecord (titles st) (titlePrefix (TitleId md)) mc sp) (Version md) = Some u"
      by (simp add: t_def p_def)
    from pce_update_duplicate [OF len upd this] ui show ?thesis
      by (simp add: step_def t_def p_def)
  qed
  have absent: "Updates t (Version md) = None" if "LatestUpdate t < Version md"
  proof (cases "Updates t (Version md)")
    case None
    then show ?thesis .
  next
    case (Some u)
    with ok have "Version md \<le> LatestUpdate t" unfolding title_ok_def by blast
    with that show ?thesis by simp
  qed
  have newer: "step = Inr ((titles st)(p \<mapsto> (installUpdate f md t)\<lparr>LatestUpdate := Version md\<rparr>),
                  (if LatestUpdate t \<noteq> 0 then
                     (skipped st)(ExtendedInfo
                        (case Updates t (LatestUpdate t) of
                           Some previous \<Rightarrow> previous
                         | None \<Rightarrow> zero_SwitchFileInfo) \<mapsto> old_update)
                   else skipped st))"
    if l: "LatestUpdate t < Version md"
    using pce_update_newer [OF len upd, of "titles st" mc sp] absent [OF l] l
    by (simp add: step_def t_def p_def)
  have first: "step = Inr ((titles st)(p \<mapsto> (installUpdate f md t)\<lparr>LatestUpdate := Version md\<rparr>),
                        skipped st)"
    if "LatestUpdate t < Version md \<and> LatestUpdate t = 0"
    using newer that by simp
  have later: "\<exists>previous. Updates t (LatestUpdate t) = Some previous \<and>
               step = Inr ((titles st)(p \<mapsto> (installUpdate f md t)\<lparr>LatestUpdate := Version md\<rparr>),
                           (skipped st)(ExtendedInfo previous \<mapsto>
                              skip REASON_OLD_UPDATE ''old update file, newer update exist locally''))"
    if l: "LatestUpdate t < Version md \<and> LatestUpdate t \<noteq> 0"
  proof -
    from ok l obtain previous where pr: "Updates t (LatestUpdate t) = Some previous"
      unfolding title_ok_def by blast
    with newer l show ?thesis by (simp add: old_update_def)
  qed
  have older: "step = Inr ((titles st)(p \<mapsto> installUpdate f md t),
                        (skipped st)(f \<mapsto>
                           skip REASON_OLD_UPDATE ''old update file, newer update exist locally''))"
    if "Updates t (Version md) = None \<and> Version md \<le> LatestUpdate t"
    using pce_update_older [OF len upd, of "titles st" mc sp] that
    by (simp add: step_def t_def p_def old_update_def)
  have mono: "\<exists>u'. titles st' q = Some u' \<and> LatestUpdate u \<le> LatestUpdate u'"
    if "processLocalFiles env later_files st = Inr st' \<and> titles st q = Some u" for later_files st' q u
    using run_grows [of env later_files st st' q u] that unfolding title_grows_def by blast
  have e1: "latest_update (processLocalFiles ex_env
            [ex_file ''[0100000000001800][v3].nsp'', ex_file ''[0100000000001800][v1].nsp'',
             ex_file ''[0100000000001800][v5].nsp''] ex_init) ''010000000000'' = Some 5"
    by code_simp
  have e2: "update_file (processLocalFiles ex_env
            [ex_file ''[0100000000001800][v3].nsp'', ex_file ''[0100000000001800][v1].nsp'',
             ex_file ''[0100000000001800][v5].nsp''] ex_init) ''010000000000'' 5
           = Some (ex_file ''[0100000000001800][v5].nsp'')"
    by code_simp
  have e3: "skip_reason (processLocalFiles ex_env
            [ex_file ''[0100000000001800][v3].nsp'', ex_file ''[0100000000001800][v1].nsp'',
             ex_file ''[0100000000001800][v5].nsp''] ex_init)
            (ex_file ''[0100000000001800][v3].nsp'') = Some REASON_OLD_UPDATE"
    by code_simp
  have e4: "skip_reason (processLocalFiles ex_env
            [ex_file ''[0100000000001800][v3].nsp'', ex_file ''[0100000000001800][v1].nsp'',
             ex_file ''[0100000000001800][v5].nsp''] ex_init)
            (ex_file ''[0100000000001800][v1].nsp'') = Some REASON_OLD_UPDATE"
    by code_simp
  have e5: "skip_reason (processLocalFiles ex_env
            [ex_file ''[0100000000001800][v3].nsp'', ex_file ''[0100000000001800][v1].nsp'',
             ex_file ''[0100000000001800][v5].nsp''] ex_init)
            (ex_file ''[0100000000001800][v5].nsp'') = None"
    by code_simp
  from dup first later older mono e1 e2 e3 e4 e5 show ?thesis by blast
qed

lemma suffix_000_not_800: "HasSuffix s ''000'' \<Longrightarrow> \<not> HasSuffix s ''800''"
  by (auto simp: HasSuffix_def)

text \<open>The theorem at the first update of a title, in the empty catalog.\<close>

theorem update_resolution_witness:
  "reached ex_env [] None ex_init
   \<and> Info (ex_file ''[0100000000001800][v3].nsp'') \<noteq> None
   \<and> 4 \<le> length (TitleId \<lparr>TitleId = ''0100000000001800'', Version = 3, Type = []\<rparr>)
   \<and> HasSuffix (TitleId \<lparr>TitleId = ''0100000000001800'', Version = 3, Type = []\<rparr>) ''800''
   \<and> processContentEntry (ex_file ''[0100000000001800][v3].nsp'') False False
        \<lparr>TitleId = ''0100000000001800'', Version = 3, Type = []\<rparr>
        (titles ex_init, skipped ex_init) =
      Inr ((titles ex_init)(''010000000000'' \<mapsto>
             (installUpdate (ex_file ''[0100000000001800][v3].nsp'')
                \<lparr>TitleId = ''0100000000001800'', Version = 3, Type = []\<rparr>
                (new_SwitchGameFiles False False))\<lparr>LatestUpdate := 3\<rparr>),
           skipped ex_init)"
proof -
  let ?md = "\<lparr>TitleId = ''0100000000001800'', Version = 3, Type = []\<rparr>"
  have h1: "reached ex_env [] None ex_init" by (simp add: reached_def ex_init_def)
  have h2: "Info (ex_file ''[0100000000001800][v3].nsp'') \<noteq> None" by (simp add: ex_file_def)
  have h3: "4 \<le> length (TitleId ?md)" by simp
  have h4: "HasSuffix (TitleId ?md) ''800''" by (simp add: HasSuffix_def)
  have t: "titleRecord (titles ex_init) ''010000000000'' False False
             = new_SwitchGameFiles False False"
    by (simp add: titleRecord_def ex_init_def)
  have l: "LatestUpdate (new_SwitchGameFiles False False) = 0"
    by (simp add: new_SwitchGameFiles_def)
  have p: "titlePrefix (TitleId ?md) = ''010000000000''" by (simp add: titlePrefix_def)
  have p': "titlePrefix ''0100000000001800'' = ''010000000000''" by (simp add: titlePrefix_def)
  from update_resolution [OF h1 h2 h3 h4, of False False]
  have "LatestUpdate (titleRecord (titles ex_init) (titlePrefix (TitleId ?md)) False False)
            < Version ?md
        \<and> LatestUpdate (titleRecord (titles ex_init) (titlePrefix (TitleId ?md)) False False) = 0
        \<longrightarrow> processContentEntry (ex_file ''[0100000000001800][v3].nsp'') False False ?md
              (titles ex_init, skipped ex_init) =
            Inr ((titles ex_init)(titlePrefix (TitleId ?md) \<mapsto>
                 (installUpdate (ex_file ''[0100000000001800][v3].nsp'') ?md
                   (titleRecord (titles ex_init) (titlePrefix (TitleId ?md)) False False))
                   \<lparr>LatestUpdate := Version ?md\<rparr>),
               skipped ex_init)"
    by blast
  then have "processContentEntry (ex_file ''[0100000000001800][v3].nsp'') False False ?md
        (titles ex_init, skipped ex_init) =
      Inr ((titles ex_init)(''010000000000'' \<mapsto>
             (installUpdate (ex_file ''[0100000000001800][v3].nsp'') ?md
                (new_SwitchGameFiles False False))\<lparr>LatestUpdate := 3\<rparr>),
           skipped ex_init)"
    by (simp add: p' t l)
  with h1 h2 h3 h4 show ?thesis by blast
qed

text \<open>
  Claim C5. In every state a scan reaches from the empty catalog, a base entry (title id
  ending in \<open>000\<close>) is installed as the record's base when the record has none, and
  otherwise the file is skipped as a duplicate, the message naming the installed file;
  the versions play no part. An installed base stays the record's base over any further
  scan. Of two base files of one title the first is installed and the second skipped as
  a duplicate, here with the higher version on the second.
\<close>

theorem base_resolution:
  fixes st :: ScanState and md :: ContentMetaAttributes and mc sp :: bool
    and f :: ExtendedFileInfo
  defines "p \<equiv> titlePrefix (TitleId md)"
  defines "t \<equiv> titleRecord (titles st) p mc sp"
  defines "step \<equiv> processContentEntry f sp mc md (titles st, skipped st)"
  assumes run: "reached env files d0 st"
    and fi: "Info f \<noteq> None"
    and len: "4 \<le> length (TitleId md)"
    and base: "HasSuffix (TitleId md) ''000''"
  shows "(\<not> BaseExist t \<longrightarrow> step = Inr ((titles st)(p \<mapsto> installBase f md t), skipped st))
       \<and> (BaseExist t \<longrightarrow>
            (\<exists>bi. Info (ExtendedInfo (File t)) = Some bi \<and>
               step = Inr ((titles st)(p \<mapsto> t),
                           (skipped st)(f \<mapsto> skip REASON_DUPLICATE
                              (''duplicate base file ('' @ Name bi @ '')'')))))
       \<and> (\<forall>later_files st' q u.
             processLocalFiles env later_files st = Inr st' \<and> titles st q = Some u \<and> BaseExist u
             \<longrightarrow> (\<exists>u'. titles st' q = Some u' \<and> BaseExist u' \<and> File u' = File u))
       \<and> base_file (processLocalFiles ex_env
            [ex_file ''a[0100000000001000][v0].nsp'', ex_file ''b[0100000000001000][v65536].nsp'']
            ex_init) ''010000000000'' = Some (ex_file ''a[0100000000001000][v0].nsp'')
       \<and> skip_reason (processLocalFiles ex_env
            [ex_file ''a[0100000000001000][v0].nsp'', ex_file ''b[0100000000001000][v65536].nsp'']
            ex_init) (ex_file ''b[0100000000001000][v65536].nsp'') = Some REASON_DUPLICATE
       \<and> skip_text (processLocalFiles ex_env
            [ex_file ''a[0100000000001000][v0].nsp'', ex_file ''b[0100000000001000][v65536].nsp'']
            ex_init) (ex_file ''b[0100000000001000][v65536].nsp'')
           = Some ''duplicate base file (a[0100000000001000][v0].nsp)''
       \<and> skip_reason (processLocalFiles ex_env
            [ex_file ''a[0100000000001000][v0].nsp'', ex_file ''b[0100000000001000][v65536].nsp'']
            ex_init) (ex_file ''a[0100000000001000][v0].nsp'') = None"
proof -
  have ok: "title_ok t" unfolding t_def using run by (rule reached_record_ok)
  have nu: "\<not> HasSuffix (TitleId md) ''800''" using base by (rule suffix_000_not_800)
  have first: "step = Inr ((titles st)(p \<mapsto> installBase f md t), skipped st)"
    if "\<not> BaseExist t"
    using pce_base_first [OF len nu base, of "titles st" mc sp] that
    by (simp add: step_def t_def p_def)
  have dup: "\<exists>bi. Info (ExtendedInfo (File t)) = Some bi \<and>
               step = Inr ((titles st)(p \<mapsto> t),
                           (skipped st)(f \<mapsto> skip REASON_DUPLICATE
                              (''duplicate base file ('' @ Name bi @ '')'')))"
    if b: "BaseExist t"
  proof -
    from ok b obtain bi where bi: "Info (ExtendedInfo (File t)) = Some bi"
      unfolding title_ok_def by blast
    from b have "BaseExist (titleRecord (titles st) (titlePrefix (TitleId md)) mc sp)"
      by (simp add: t_def p_def)
    from pce_base_duplicate [OF len nu base this] bi show ?thesis
      by (simp add: step_def t_def p_def)
  qed
  have keep: "\<exists>u'. titles st' q = Some u' \<and> BaseExist u' \<and> File u' = File u"
    if "processLocalFiles env later_files st = Inr st' \<and> titles st q = Some u \<and> BaseExist u"
    for later_files st' q u
    using run_grows [of env later_files st st' q u] that unfolding title_grows_def by blast
  have e1: "base_file (processLocalFiles ex_env
            [ex_file ''a[0100000000001000][v0].nsp'', ex_file ''b[0100000000001000][v65536].nsp'']
            ex_init) ''010000000000'' = Some (ex_file ''a[0100000000001000][v0].nsp'')"
    by code_simp
  have e2: "skip_reason (processLocalFiles ex_env
            [ex_file ''a[0100000000001000][v0].nsp'', ex_file ''b[0100000000001000][v65536].nsp'']
            ex_init) (ex_file ''b[0100000000001000][v65536].nsp'') = Some REASON_DUPLICATE"
    by code_simp
  have e3: "skip_text (processLocalFiles ex_env
            [ex_file ''a[0100000000001000][v0].nsp'', ex_file ''b[0100000000001000][v65536].nsp'']
            ex_init) (ex_file ''b[0100000000001000][v65536].nsp'')
           = Some ''duplicate base file (a[0100000000001000][v0].nsp)''"
    by code_simp
  have e4: "skip_reason (processLocalFiles ex_env
            [ex_file ''a[0100000000001000][v0].nsp'', ex_file ''b[0100000000001000][v65536].nsp'']
            ex_init) (ex_file ''a[0100000000001000][v0].nsp'') = None"
    by code_simp
  from first dup keep e1 e2 e3 e4 show ?thesis by blast
qed

text \<open>The theorem at the first base file of a title, in the empty catalog.\<close>

theorem base_resolution_witness:
  "reached ex_env [] None ex_init
   \<and> Info (ex_file ''a[0100000000001000][v0].nsp'') \<noteq> None
   \<and> 4 \<le> length (TitleId \<lparr>TitleId = ''0100000000001000'', Version = 0, Type = []\<rparr>)
   \<and> HasSuffix (TitleId \<lparr>TitleId = ''0100000000001000'', Version = 0, Type = []\<rparr>) ''000''
   \<and> processContentEntry (ex_file ''a[0100000000001000][v0].nsp'') False False
        \<lparr>TitleId = ''0100000000001000'', Version = 0, Type = []\<rparr>
        (titles ex_init, skipped ex_init) =
      Inr ((titles ex_init)(''010000000000'' \<mapsto>
             installBase (ex_file ''a[0100000000001000][v0].nsp'')
                \<lparr>TitleId = ''0100000000001000'', Version = 0, Type = []\<rparr>
                (new_SwitchGameFiles False False)),
           skipped ex_init)"
proof -
  let ?md = "\<lparr>TitleId = ''0100000000001000'', Version = 0, Type = []\<rparr>"
  have h1: "reached ex_env [] None ex_init" by (simp add: reached_def ex_init_def)
  have h2: "Info (ex_file ''a[0100000000001000][v0].nsp'') \<noteq> None" by (simp add: ex_file_def)
  have h3: "4 \<le> length (TitleId ?md)" by simp
  have h4: "HasSuffix (TitleId ?md) ''000''" by (simp add: HasSuffix_def)
  have t: "titleRecord (titles ex_init) ''010000000000'' False False
             = new_SwitchGameFiles False False"
    by (simp add: titleRecord_def ex_init_def)
  have l: "\<not> BaseExist (new_SwitchGameFiles False False)"
    by (simp add: new_SwitchGameFiles_def)
  have p: "titlePrefix (TitleId ?md) = ''010000000000''" by (simp add: titlePrefix_def)
  have p': "titlePrefix ''0100000000001000'' = ''010000000000''" by (simp add: titlePrefix_def)
  from base_resolution [OF h1 h2 h3 h4, of False False]
  have "\<not> BaseExist (titleRecord (titles ex_init) (titlePrefix (TitleId ?md)) False False)
        \<longrightarrow> processContentEntry (ex_file ''a[0100000000001000][v0].nsp'') False False ?md
              (titles ex_init, skipped ex_init) =
            Inr ((titles ex_init)(titlePrefix (TitleId ?md) \<mapsto>
                 installBase (ex_file ''a[0100000000001000][v0].nsp'') ?md
                   (titleRecord (titles ex_init) (titlePrefix (TitleId ?md)) False False)),
               skipped ex_init)"
    by blast
  then have "processContentEntry (ex_file ''a[0100000000001000][v0].nsp'') False False ?md
        (titles ex_init, skipped ex_init) =
      Inr ((titles ex_init)(''010000000000'' \<mapsto>
             installBase (ex_file ''a[0100000000001000][v0].nsp'') ?md
                (new_SwitchGameFiles False False)),
           skipped ex_init)"
    by (simp add: p' t l)
  with h1 h2 h3 h4 show ?thesis by blast
qed

lemma getGameMetadata_no_keys:
  "\<not> header_key env \<Longrightarrow> Info file = Some info \<Longrightarrow>
   getGameMetadata env file path skp d = (metadataFromFileName (Name info), skp, d)"
  by (simp add: getGameMetadata_def)

lemma ex_dlc_run:
  "processLocalFiles ex_env [ex_file ''a[0100000000002001][v2].nsp''] ex_init = Inr ex_dlc_state"
proof -
  let ?f = "ex_file ''a[0100000000002001][v2].nsp''"
  let ?md = "\<lparr>TitleId = ''0100000000002001'', Version = 2, Type = []\<rparr>"
  have m: "metadataFromFileName ''a[0100000000002001][v2].nsp'' = Inr [(''0100000000002001'', ?md)]"
    by code_simp
  have l: "ToLower ''a[0100000000002001][v2].nsp'' = ''a[0100000000002001][v2].nsp''"
    by code_simp
  have a: "Atoi ''sp'' = None" by code_simp
  have g: "getGameMetadata ex_env ?f ''/g/a[0100000000002001][v2].nsp'' Map.empty None
             = (Inr [(''0100000000002001'', ?md)], Map.empty, None)"
    using getGameMetadata_no_keys [of ex_env ?f] m
    by (simp add: ex_env_def ex_file_def)
  have s: "processContentEntry ?f False False ?md (Map.empty, Map.empty)
             = Inr ([''010000000000'' \<mapsto> installDlc ?f ?md (new_SwitchGameFiles False False)],
                    Map.empty)"
    using pce_dlc_first [of ?md Map.empty False False ?f Map.empty]
    by (simp add: HasSuffix_def titlePrefix_def titleRecord_def new_SwitchGameFiles_def)
  have c: "classifyFile ex_env ?f ''/g/a[0100000000002001][v2].nsp''
             ''a[0100000000002001][v2].nsp'' False ex_init = Inr ex_dlc_state"
    unfolding classifyFile_def
    by (simp add: HasSuffix_def ex_init_def g s ex_dlc_state_def)
  have "processLocalFile ex_env ?f ex_init = Inr ex_dlc_state"
    unfolding processLocalFile_def
    using c by (simp add: ex_file_def l a ex_env_def)
  then show ?thesis by simp
qed

text \<open>
  Claim C6. In every state a scan reaches from the empty catalog, a DLC entry whose title
  id has a stored entry is skipped as an old file when its version is lower than the
  stored one, skipped as a duplicate when the versions are equal, and replaces the
  stored entry when its version is higher; in the last case the skip list is left as
  it is, so nothing is recorded for the file displaced.
\<close>

theorem dlc_resolution:
  fixes st :: ScanState and md :: ContentMetaAttributes and mc sp :: bool
    and f :: ExtendedFileInfo
  defines "p \<equiv> titlePrefix (TitleId md)"
  defines "t \<equiv> titleRecord (titles st) p mc sp"
  defines "step \<equiv> processContentEntry f sp mc md (titles st, skipped st)"
  assumes run: "reached env files d0 st"
    and fi: "Info f \<noteq> None"
    and len: "4 \<le> length (TitleId md)"
    and nu: "\<not> HasSuffix (TitleId md) ''800''"
    and nb: "\<not> HasSuffix (TitleId md) ''000''"
    and stored: "Dlc t (TitleId md) = Some dlc"
  shows "\<exists>dm di. Metadata dlc = Some dm \<and> Info (ExtendedInfo dlc) = Some di
       \<and> (Version md < Version dm \<longrightarrow>
            step = Inr ((titles st)(p \<mapsto> t),
                        (skipped st)(f \<mapsto> skip REASON_OLD_UPDATE
                           ''old DLC file, newer version exist locally'')))
       \<and> (Version md = Version dm \<longrightarrow>
            step = Inr ((titles st)(p \<mapsto> t),
                        (skipped st)(f \<mapsto> skip REASON_DUPLICATE
                           (''duplicate DLC file ('' @ Name di @ '')''))))
       \<and> (Version dm < Version md \<longrightarrow>
            step = Inr ((titles st)(p \<mapsto> installDlc f md t), skipped st))"
proof -
  have ok: "title_ok t" unfolding t_def using run by (rule reached_record_ok)
  with stored obtain dm di where dm: "Metadata dlc = Some dm"
    and di: "Info (ExtendedInfo dlc) = Some di"
    unfolding title_ok_def by blast
  from stored have "Dlc (titleRecord (titles st) (titlePrefix (TitleId md)) mc sp) (TitleId md)
      = Some dlc"
    by (simp add: t_def p_def)
  from pce_dlc_stored [OF len nu nb this dm di, of f "skipped st"]
  have "(Version md < Version dm \<longrightarrow>
            step = Inr ((titles st)(p \<mapsto> t),
                        (skipped st)(f \<mapsto> skip REASON_OLD_UPDATE
                           ''old DLC file, newer version exist locally'')))
       \<and> (Version md = Version dm \<longrightarrow>
            step = Inr ((titles st)(p \<mapsto> t),
                        (skipped st)(f \<mapsto> skip REASON_DUPLICATE
                           (''duplicate DLC file ('' @ Name di @ '')''))))
       \<and> (Version dm < Version md \<longrightarrow>
            step = Inr ((titles st)(p \<mapsto> installDlc f md t), skipped st))"
    by (simp add: step_def t_def p_def)
  with dm di show ?thesis by blast
qed

text \<open>
  The theorem in the state reached after one DLC file of version 2, at a second file of
  version 7 with the same title id.
\<close>

theorem dlc_resolution_witness:
  "reached ex_env [ex_file ''a[0100000000002001][v2].nsp''] None ex_dlc_state
   \<and> Info (ex_file ''b[0100000000002001][v7].nsp'') \<noteq> None
   \<and> 4 \<le> length (TitleId \<lparr>TitleId = ''0100000000002001'', Version = 7, Type = []\<rparr>)
   \<and> \<not> HasSuffix (TitleId \<lparr>TitleId = ''0100000000002001'', Version = 7, Type = []\<rparr>) ''800''
   \<and> \<not> HasSuffix (TitleId \<lparr>TitleId = ''0100000000002001'', Version = 7, Type = []\<rparr>) ''000''
   \<and> map_option ExtendedInfo
        (Dlc (titleRecord (titles ex_dlc_state) ''010000000000'' False False) ''0100000000002001'')
       = Some (ex_file ''a[0100000000002001][v2].nsp'')
   \<and> processContentEntry (ex_file ''b[0100000000002001][v7].nsp'') False False
        \<lparr>TitleId = ''0100000000002001'', Version = 7, Type = []\<rparr>
        (titles ex_dlc_state, skipped ex_dlc_state) =
      Inr ((titles ex_dlc_state)(''010000000000'' \<mapsto>
             installDlc (ex_file ''b[0100000000002001][v7].nsp'')
                \<lparr>TitleId = ''0100000000002001'', Version = 7, Type = []\<rparr>
                (titleRecord (titles ex_dlc_state) ''010000000000'' False False)),
           skipped ex_dlc_state)"
proof -
  let ?md = "\<lparr>TitleId = ''0100000000002001'', Version = 7, Type = []\<rparr>"
  let ?old = "\<lparr>ExtendedInfo = ex_file ''a[0100000000002001][v2].nsp'',
               Metadata = Some \<lparr>TitleId = ''0100000000002001'', Version = 2, Type = ''DLC''\<rparr>\<rparr>"
  have h1: "reached ex_env [ex_file ''a[0100000000002001][v2].nsp''] None ex_dlc_state"
    using ex_dlc_run by (simp add: reached_def ex_init_def)
  have h2: "Info (ex_file ''b[0100000000002001][v7].nsp'') \<noteq> None" by (simp add: ex_file_def)
  have h3: "4 \<le> length (TitleId ?md)" by simp
  have h4: "\<not> HasSuffix (TitleId ?md) ''800''" by (simp add: HasSuffix_def)
  have h5: "\<not> HasSuffix (TitleId ?md) ''000''" by (simp add: HasSuffix_def)
  have p: "titlePrefix (TitleId ?md) = ''010000000000''" by (simp add: titlePrefix_def)
  have h6: "Dlc (titleRecord (titles ex_dlc_state) (titlePrefix (TitleId ?md)) False False)
              (TitleId ?md) = Some ?old"
    unfolding p by (simp add: titleRecord_def ex_dlc_state_def installDlc_def)
  from dlc_resolution [OF h1 h2 h3 h4 h5 h6]
  have "processContentEntry (ex_file ''b[0100000000002001][v7].nsp'') False False ?md
        (titles ex_dlc_state, skipped ex_dlc_state) =
      Inr ((titles ex_dlc_state)(titlePrefix (TitleId ?md) \<mapsto>
             installDlc (ex_file ''b[0100000000002001][v7].nsp'') ?md
                (titleRecord (titles ex_dlc_state) (titlePrefix (TitleId ?md)) False False)),
           skipped ex_dlc_state)"
    by auto
  then have r: "processContentEntry (ex_file ''b[0100000000002001][v7].nsp'') False False ?md
        (titles ex_dlc_state, skipped ex_dlc_state) =
      Inr ((titles ex_dlc_state)(''010000000000'' \<mapsto>
             installDlc (ex_file ''b[0100000000002001][v7].nsp'') ?md
                (titleRecord (titles ex_dlc_state) ''010000000000'' False False)),
           skipped ex_dlc_state)"
    unfolding p .
  from h6 have s: "map_option ExtendedInfo
        (Dlc (titleRecord (titles ex_dlc_state) ''010000000000'' False False) ''0100000000002001'')
       = Some (ex_file ''a[0100000000002001][v2].nsp'')"
    unfolding p by simp
  from h1 h2 h3 h4 h5 s r show ?thesis by blast
qed

text \<open>
  Claim C10, as amended. In every state a scan reaches from the empty catalog, an update
  entry of version 0 for which no update of version 0 is stored yet is stored in the
  record's update map under key 0 and its file is put on the skip list as an old update
  (\<open>old update file, newer update exist locally\<close>); the latest-update version is left
  as it is. This is so for the first update of a title too: a new record's
  latest-update version is 0 and its update map is empty.
\<close>

theorem version_zero_update:
  fixes st :: ScanState and md :: ContentMetaAttributes and mc sp :: bool
    and f :: ExtendedFileInfo
  defines "p \<equiv> titlePrefix (TitleId md)"
  defines "t \<equiv> titleRecord (titles st) p mc sp"
  defines "step \<equiv> processContentEntry f sp mc md (titles st, skipped st)"
  assumes run: "reached env files d0 st"
    and fi: "Info f \<noteq> None"
    and len: "4 \<le> length (TitleId md)"
    and upd: "HasSuffix (TitleId md) ''800''"
    and zero: "Version md = 0"
    and fresh: "Updates t 0 = None"
  shows "step = Inr ((titles st)(p \<mapsto> installUpdate f md t),
                     (skipped st)(f \<mapsto> skip REASON_OLD_UPDATE
                        ''old update file, newer update exist locally''))
       \<and> Updates (installUpdate f md t) 0
           = Some \<lparr>ExtendedInfo = f, Metadata = Some (md\<lparr>Type := ''Update''\<rparr>)\<rparr>
       \<and> LatestUpdate (installUpdate f md t) = LatestUpdate t
       \<and> (titles st p = None \<longrightarrow> LatestUpdate t = 0 \<and> Updates t = Map.empty)"
proof -
  have ok: "title_ok t" unfolding t_def using run by (rule reached_record_ok)
  then have "Version md \<le> LatestUpdate t" using zero unfolding title_ok_def by simp
  moreover from fresh zero
  have "Updates (titleRecord (titles st) (titlePrefix (TitleId md)) mc sp) (Version md) = None"
    by (simp add: t_def p_def)
  ultimately have "step = Inr ((titles st)(p \<mapsto> installUpdate f md t),
                     (skipped st)(f \<mapsto> skip REASON_OLD_UPDATE
                        ''old update file, newer update exist locally''))"
    using pce_update_older [OF len upd, of "titles st" mc sp f "skipped st"]
    by (simp add: step_def t_def p_def old_update_def)
  moreover have "Updates (installUpdate f md t) 0
           = Some \<lparr>ExtendedInfo = f, Metadata = Some (md\<lparr>Type := ''Update''\<rparr>)\<rparr>"
    using zero by (simp add: installUpdate_def)
  moreover have "LatestUpdate (installUpdate f md t) = LatestUpdate t"
    by (simp add: installUpdate_def)
  moreover have "titles st p = None \<longrightarrow> LatestUpdate t = 0 \<and> Updates t = Map.empty"
    by (simp add: t_def titleRecord_def new_SwitchGameFiles_def)
  ultimately show ?thesis by blast
qed

text \<open>The theorem at the first and only update of a title.\<close>

theorem version_zero_update_witness:
  "reached ex_env [] None ex_init
   \<and> Info (ex_file ''a[0100000000001800][v0].nsp'') \<noteq> None
   \<and> 4 \<le> length (TitleId \<lparr>TitleId = ''0100000000001800'', Version = 0, Type = []\<rparr>)
   \<and> HasSuffix (TitleId \<lparr>TitleId = ''0100000000001800'', Version = 0, Type = []\<rparr>) ''800''
   \<and> Version \<lparr>TitleId = ''0100000000001800'', Version = 0, Type = []\<rparr> = 0
   \<and> Updates (titleRecord (titles ex_init) ''010000000000'' False False) 0 = None
   \<and> processContentEntry (ex_file ''a[0100000000001800][v0].nsp'') False False
        \<lparr>TitleId = ''0100000000001800'', Version = 0, Type = []\<rparr>
        (titles ex_init, skipped ex_init) =
      Inr ((titles ex_init)(''010000000000'' \<mapsto>
             installUpdate (ex_file ''a[0100000000001800][v0].nsp'')
                \<lparr>TitleId = ''0100000000001800'', Version = 0, Type = []\<rparr>
                (titleRecord (titles ex_init) ''010000000000'' False False)),
           (skipped ex_init)(ex_file ''a[0100000000001800][v0].nsp'' \<mapsto>
              skip REASON_OLD_UPDATE ''old update file, newer update exist locally''))"
proof -
  let ?md = "\<lparr>TitleId = ''0100000000001800'', Version = 0, Type = []\<rparr>"
  have h1: "reached ex_env [] None ex_init" by (simp add: reached_def ex_init_def)
  have h2: "Info (ex_file ''a[0100000000001800][v0].nsp'') \<noteq> None" by (simp add: ex_file_def)
  have h3: "4 \<le> length (TitleId ?md)" by simp
  have h4: "HasSuffix (TitleId ?md) ''800''" by (simp add: HasSuffix_def)
  have h5: "Version ?md = 0" by simp
  have p: "titlePrefix (TitleId ?md) = ''010000000000''" by (simp add: titlePrefix_def)
  have h6: "Updates (titleRecord (titles ex_init) (titlePrefix (TitleId ?md)) False False) 0 = None"
    unfolding p by (simp add: titleRecord_def ex_init_def new_SwitchGameFiles_def)
  from version_zero_update [OF h1 h2 h3 h4 h5 h6]
  have "processContentEntry (ex_file ''a[0100000000001800][v0].nsp'') False False ?md
        (titles ex_init, skipped ex_init) =
      Inr ((titles ex_init)(titlePrefix (TitleId ?md) \<mapsto>
             installUpdate (ex_file ''a[0100000000001800][v0].nsp'') ?md
                (titleRecord (titles ex_init) (titlePrefix (TitleId ?md)) False False)),
           (skipped ex_init)(ex_file ''a[0100000000001800][v0].nsp'' \<mapsto>
              skip REASON_OLD_UPDATE ''old update file, newer update exist locally''))"
    by blast
  then have r: "processContentEntry (ex_file ''a[0100000000001800][v0].nsp'') False False ?md
        (titles ex_init, skipped ex_init) =
      Inr ((titles ex_init)(''010000000000'' \<mapsto>
             installUpdate (ex_file ''a[0100000000001800][v0].nsp'') ?md
                (titleRecord (titles ex_init) ''010000000000'' False False)),
           (skipped ex_init)(ex_file ''a[0100000000001800][v0].nsp'' \<mapsto>
              skip REASON_OLD_UPDATE ''old update file, newer update exist locally''))"
    unfolding p .
  from h6 have s: "Updates (titleRecord (titles ex_init) ''010000000000'' False False) 0 = None"
    unfolding p .
  from h1 h2 h3 h4 h5 s r show ?thesis by blast
qed

text \<open>
  Claim C10 as the specification words it fails for a second update of version 0: it is
  skipped as a duplicate, not as an old update, and the update map keeps the first file
  under key 0.
\<close>

theorem version_zero_update_counterexample:
  "skip_reason (processLocalFiles ex_env
      [ex_file ''a[0100000000001800][v0].nsp'', ex_file ''b[0100000000001800][v0].nsp''] ex_init)
      (ex_file ''b[0100000000001800][v0].nsp'') = Some REASON_DUPLICATE
   \<and> REASON_DUPLICATE \<noteq> REASON_OLD_UPDATE
   \<and> update_file (processLocalFiles ex_env
      [ex_file ''a[0100000000001800][v0].nsp'', ex_file ''b[0100000000001800][v0].nsp''] ex_init)
      ''010000000000'' 0 = Some (ex_file ''a[0100000000001800][v0].nsp'')
   \<and> ex_file ''a[0100000000001800][v0].nsp'' \<noteq> ex_file ''b[0100000000001800][v0].nsp''"
  by code_simp

section \<open>Properties of the metadata resolver and of the cache\<close>

lemma readStructural_chosen:
  "readStructural env file fileName filePath skp =
     (case chosen_parser env fileName filePath of
        None \<Rightarrow> (None, skp)
      | Some ((metadata, None), what) \<Rightarrow> (metadata, skp)
      | Some ((metadata, Some err), what) \<Rightarrow> (metadata, skp(file \<mapsto> malformed what err)))"
  unfolding readStructural_def chosen_parser_def
  by (auto split: prod.splits option.splits)

lemma getGameMetadata_keys:
  assumes "header_key env" "Info file = Some info"
  shows "getGameMetadata env file path skp d =
     (case cacheGet env d (fileKey path info) of
        Some metadata \<Rightarrow> (Inr metadata, skp, d)
      | None \<Rightarrow>
          (case readStructural env file (ToLower (Name info)) path skp of
             (Some metadata, skp') \<Rightarrow>
               (Inr metadata, skp', cachePut env d (fileKey path info) metadata)
           | (None, skp') \<Rightarrow> (metadataFromFileName (Name info), skp', d)))"
  using assms unfolding getGameMetadata_def fileKey_def Let_def by simp

text \<open>
  Claim C3, as amended. With the deep-parsing capability present, the cache missing the
  file and the file's shape recognised, a structural parser that returns an error makes
  the resolver record a malformed-file skip entry for the file; the resolver then goes
  on. When the parser returned no metadata the result is the fallback name parser's: a
  failure exactly when the name lacks a token, the name's mapping otherwise, and the
  cache is left as it is. When the parser returned metadata with its error, that
  metadata is returned and cached.
\<close>

theorem parser_error_falls_back:
  assumes keys: "header_key env"
    and info: "Info file = Some info"
    and miss: "cacheGet env d (fileKey path info) = None"
    and failed: "chosen_parser env (ToLower (Name info)) path = Some ((metadata, Some err), what)"
  shows "getGameMetadata env file path skp d =
     ((case metadata of
         None \<Rightarrow> metadataFromFileName (Name info)
       | Some m \<Rightarrow> Inr m),
      skp(file \<mapsto> malformed what err),
      (case metadata of
         None \<Rightarrow> d
       | Some m \<Rightarrow> cachePut env d (fileKey path info) m))
   \<and> ReasonCode (malformed what err) = REASON_MALFORMED_FILE"
  unfolding getGameMetadata_keys [OF keys info] miss readStructural_chosen failed
  by (simp add: malformed_def split: option.splits)

text \<open>The theorem at a file whose container cannot be read and whose name has both tokens.\<close>

theorem parser_error_falls_back_witness:
  "header_key ex_keys_env
   \<and> Info (ex_file ''[0100ABCDEF123000][v0].nsp'')
       = Some \<lparr>Name = ''[0100ABCDEF123000][v0].nsp'', Size = 1, IsDir = False\<rparr>
   \<and> cacheGet ex_keys_env None
        (fileKey ''/g/[0100ABCDEF123000][v0].nsp''
           \<lparr>Name = ''[0100ABCDEF123000][v0].nsp'', Size = 1, IsDir = False\<rparr>) = None
   \<and> chosen_parser ex_keys_env (ToLower ''[0100ABCDEF123000][v0].nsp'')
        ''/g/[0100ABCDEF123000][v0].nsp''
       = Some ((None, Some ''bad magic''), ''failed to read NSP [reason: '')
   \<and> getGameMetadata ex_keys_env (ex_file ''[0100ABCDEF123000][v0].nsp'')
        ''/g/[0100ABCDEF123000][v0].nsp'' Map.empty None =
       (metadataFromFileName ''[0100ABCDEF123000][v0].nsp'',
        [ex_file ''[0100ABCDEF123000][v0].nsp'' \<mapsto>
           malformed ''failed to read NSP [reason: '' ''bad magic''],
        None)"
proof -
  let ?info = "\<lparr>Name = ''[0100ABCDEF123000][v0].nsp'', Size = 1, IsDir = False\<rparr>"
  have h1: "header_key ex_keys_env" by (simp add: ex_keys_env_def)
  have h2: "Info (ex_file ''[0100ABCDEF123000][v0].nsp'') = Some ?info"
    by (simp add: ex_file_def)
  have h3: "cacheGet ex_keys_env None (fileKey ''/g/[0100ABCDEF123000][v0].nsp'' ?info) = None"
    by (simp add: cacheGet_def)
  have l: "ToLower ''[0100ABCDEF123000][v0].nsp'' = ''[0100abcdef123000][v0].nsp''"
    by code_simp
  have h4: "chosen_parser ex_keys_env (ToLower (Name ?info)) ''/g/[0100ABCDEF123000][v0].nsp''
       = Some ((None, Some ''bad magic''), ''failed to read NSP [reason: '')"
    by (simp add: l chosen_parser_def HasSuffix_def ex_keys_env_def)
  from parser_error_falls_back [OF h1 h2 h3 h4, of Map.empty]
  have "getGameMetadata ex_keys_env (ex_file ''[0100ABCDEF123000][v0].nsp'')
        ''/g/[0100ABCDEF123000][v0].nsp'' Map.empty None =
       (metadataFromFileName ''[0100ABCDEF123000][v0].nsp'',
        [ex_file ''[0100ABCDEF123000][v0].nsp'' \<mapsto>
           malformed ''failed to read NSP [reason: '' ''bad magic''],
        None)"
    by simp
  with h1 h2 h3 h4 show ?thesis by simp
qed

text \<open>
  Claim C3 as the specification words it fails: the parser returns an error and no
  metadata, the skip entry is written, and the resolver still returns the mapping read
  from the file name.
\<close>

theorem parser_error_falls_back_counterexample:
  "header_key ex_keys_env
   \<and> fst (ReadNspMetadata ex_keys_env ''/g/[0100ABCDEF123000][v0].nsp'') = None
   \<and> snd (ReadNspMetadata ex_keys_env ''/g/[0100ABCDEF123000][v0].nsp'') = Some ''bad magic''
   \<and> fst (getGameMetadata ex_keys_env (ex_file ''[0100ABCDEF123000][v0].nsp'')
        ''/g/[0100ABCDEF123000][v0].nsp'' Map.empty None)
       = Inr [(''0100abcdef123000'',
               \<lparr>TitleId = ''0100abcdef123000'', Version = 0, Type = []\<rparr>)]
   \<and> map_option ReasonCode
        (fst (snd (getGameMetadata ex_keys_env (ex_file ''[0100ABCDEF123000][v0].nsp'')
           ''/g/[0100ABCDEF123000][v0].nsp'' Map.empty None))
          (ex_file ''[0100ABCDEF123000][v0].nsp''))
       = Some REASON_MALFORMED_FILE"
  by code_simp

text \<open>
  Claim C8. A call of the resolver changes the cache only when the capability is
  present, the lookup missed and the structural parser invoked returned the metadata the
  call returns. A cache hit is returned with nothing written; a result of the fallback
  name parser leaves the cache as it is; and without the capability the skip list and
  the cache are left as they are and the result is the same whatever the cache holds.
\<close>

theorem cache_write_policy:
  fixes env :: Env and path :: string and skp :: Skipped and d :: DB and f :: ExtendedFileInfo
  defines "G \<equiv> getGameMetadata env f path skp d"
  shows "(snd (snd G) \<noteq> d \<longrightarrow>
            header_key env \<and>
            (\<exists>info m err what.
               Info f = Some info \<and> cacheGet env d (fileKey path info) = None
             \<and> chosen_parser env (ToLower (Name info)) path = Some ((Some m, err), what)
             \<and> fst G = Inr m \<and> snd (snd G) = cachePut env d (fileKey path info) m))
       \<and> (\<forall>info m. header_key env \<and> Info f = Some info
              \<and> cacheGet env d (fileKey path info) = Some m \<longrightarrow> G = (Inr m, skp, d))
       \<and> (\<forall>info. Info f = Some info
              \<and> (\<not> header_key env
                 \<or> cacheGet env d (fileKey path info) = None
                   \<and> (chosen_parser env (ToLower (Name info)) path = None
                      \<or> (\<exists>err what. chosen_parser env (ToLower (Name info)) path
                                        = Some ((None, err), what))))
              \<longrightarrow> fst G = metadataFromFileName (Name info) \<and> snd (snd G) = d)
       \<and> (\<not> header_key env \<longrightarrow>
            snd G = (skp, d) \<and> (\<forall>d2. fst (getGameMetadata env f path skp d2) = fst G))"
proof -
  have nokeys: "snd G = (skp, d) \<and> (\<forall>d2. fst (getGameMetadata env f path skp d2) = fst G)"
    if "\<not> header_key env"
    using that unfolding G_def getGameMetadata_def by (simp split: option.splits)
  have hit: "G = (Inr m, skp, d)"
    if "header_key env \<and> Info f = Some info \<and> cacheGet env d (fileKey path info) = Some m"
    for info m
    using that unfolding G_def by (simp add: getGameMetadata_keys)
  have fallback: "fst G = metadataFromFileName (Name info) \<and> snd (snd G) = d"
    if a: "Info f = Some info
              \<and> (\<not> header_key env
                 \<or> cacheGet env d (fileKey path info) = None
                   \<and> (chosen_parser env (ToLower (Name info)) path = None
                      \<or> (\<exists>err what. chosen_parser env (ToLower (Name info)) path
                                        = Some ((None, err), what))))"
    for info
  proof (cases "header_key env")
    case False
    with a show ?thesis unfolding G_def by (simp add: getGameMetadata_no_keys)
  next
    case True
    with a have miss: "cacheGet env d (fileKey path info) = None"
      and c: "chosen_parser env (ToLower (Name info)) path = None
                \<or> (\<exists>err what. chosen_parser env (ToLower (Name info)) path
                                  = Some ((None, err), what))"
      by auto
    from c have "fst (readStructural env f (ToLower (Name info)) path skp) = None"
      unfolding readStructural_chosen by (auto split: option.splits)
    then obtain s1 where "readStructural env f (ToLower (Name info)) path skp = (None, s1)"
      by (cases "readStructural env f (ToLower (Name info)) path skp") auto
    with True a miss show ?thesis
      unfolding G_def by (simp add: getGameMetadata_keys)
  qed
  have changed: "header_key env \<and>
            (\<exists>info m err what.
               Info f = Some info \<and> cacheGet env d (fileKey path info) = None
             \<and> chosen_parser env (ToLower (Name info)) path = Some ((Some m, err), what)
             \<and> fst G = Inr m \<and> snd (snd G) = cachePut env d (fileKey path info) m)"
    if ch: "snd (snd G) \<noteq> d"
  proof -
    have keys: "header_key env"
    proof (rule ccontr)
      assume "\<not> header_key env"
      from nokeys [OF this] have "snd (snd G) = d" by simp
      with ch show False by simp
    qed
    from ch obtain info where info: "Info f = Some info"
      unfolding G_def getGameMetadata_def by (cases "Info f") auto
    from ch hit keys info have miss: "cacheGet env d (fileKey path info) = None"
      by (cases "cacheGet env d (fileKey path info)") auto
    obtain mo s1 where rs: "readStructural env f (ToLower (Name info)) path skp = (mo, s1)"
      by (cases "readStructural env f (ToLower (Name info)) path skp")
    from ch keys info miss rs obtain m where m: "mo = Some m"
      unfolding G_def by (cases mo) (auto simp: getGameMetadata_keys)
    from rs m have "\<exists>err what. chosen_parser env (ToLower (Name info)) path
                       = Some ((Some m, err), what)"
      unfolding readStructural_chosen by (auto split: option.splits prod.splits)
    moreover from keys info miss rs m
    have "fst G = Inr m \<and> snd (snd G) = cachePut env d (fileKey path info) m"
      unfolding G_def by (simp add: getGameMetadata_keys)
    ultimately show ?thesis using keys info miss by blast
  qed
  from changed hit fallback nokeys show ?thesis by blast
qed

text \<open>The theorem at a call that writes: an empty store and a container that parses.\<close>

theorem cache_write_policy_witness:
  "snd (snd (getGameMetadata ex_keys_env (ex_file ''g.xci'') ''/g/g.xci'' Map.empty None)) \<noteq> None
   \<and> header_key ex_keys_env
   \<and> fst (getGameMetadata ex_keys_env (ex_file ''g.xci'') ''/g/g.xci'' Map.empty None)
       = Inr [(''0100000000003000'',
               \<lparr>TitleId = ''0100000000003000'', Version = 0, Type = []\<rparr>)]"
proof -
  let ?G = "getGameMetadata ex_keys_env (ex_file ''g.xci'') ''/g/g.xci'' Map.empty None"
  let ?m = "[(''0100000000003000'', \<lparr>TitleId = ''0100000000003000'', Version = 0, Type = []\<rparr>)]"
  have i: "Info (ex_file ''g.xci'') = Some \<lparr>Name = ''g.xci'', Size = 1, IsDir = False\<rparr>"
    by (simp add: ex_file_def)
  have l: "ToLower ''g.xci'' = ''g.xci''" by code_simp
  have c: "chosen_parser ex_keys_env ''g.xci'' ''/g/g.xci''
             = Some ((Some ?m, None), ''failed to read NSP [reason: '')"
    by (simp add: chosen_parser_def HasSuffix_def ex_keys_env_def)
  have k: "header_key ex_keys_env" by (simp add: ex_keys_env_def)
  have rs: "readStructural ex_keys_env (ex_file ''g.xci'') ''g.xci'' ''/g/g.xci'' Map.empty
             = (Some ?m, Map.empty)"
    unfolding readStructural_chosen c by simp
  have e: "gob_Encode ex_keys_env ?m = Some ''gob''" by (simp add: ex_keys_env_def)
  have h: "snd (snd ?G) \<noteq> None"
    unfolding getGameMetadata_keys [OF k i]
    by (simp add: cacheGet_def l rs cachePut_def e)
  from cache_write_policy [of ex_keys_env "ex_file ''g.xci''" "''/g/g.xci''" Map.empty None] h
  obtain info m err what where "Info (ex_file ''g.xci'') = Some info"
    and "chosen_parser ex_keys_env (ToLower (Name info)) ''/g/g.xci'' = Some ((Some m, err), what)"
    and "fst ?G = Inr m"
    by blast
  with i l c have "fst ?G = Inr ?m" by simp
  with h k show ?thesis by blast
qed

text \<open>
  Claim C2. The claim asks that a bucket whose stored version marker differs from the
  running version be deleted on opening. The code at such a bucket: the marker is
  \<open>1.3.0\<close>, the running version is \<open>1.4.0\<close>, the bucket survives the opening and the
  lookup that follows is a hit. A bucket with the same entry and no marker is deleted,
  and the same lookup misses.
\<close>

theorem stale_marker_survives_open:
  "ex_stale_bucket ''app_version'' = Some ''1.3.0''
   \<and> SLM_VERSION ex_keys_env = ''1.4.0''
   \<and> ''1.3.0'' \<noteq> ''1.4.0''
   \<and> NewLocalSwitchDBManager (Inr (Some ex_stale_bucket)) = Inr (Some ex_stale_bucket)
   \<and> lookup_after_open ex_keys_env (Inr (Some ex_stale_bucket)) ''/g/g.xci|g.xci|1''
       = Some [(''0100000000003000'',
                \<lparr>TitleId = ''0100000000003000'', Version = 0, Type = []\<rparr>)]
   \<and> lookup_after_open ex_keys_env (Inr (Some [''/g/g.xci|g.xci|1'' \<mapsto> ''gob'']))
        ''/g/g.xci|g.xci|1'' = None"
  by (simp add: ex_stale_bucket_def ex_keys_env_def lookup_after_open_def
      NewLocalSwitchDBManager_def cacheGet_def)

end
